theory Spec2Isabelle
  imports
    Main
    "HOL-Library.Sublist"
    "HOL-Library.Char_ord"
    "HOL-Library.List_Lexorder"
    "HOL-Library.AList"
begin

section \<open>Strings\<close>

text \<open>
  A Python \<open>str\<close> is modelled as a \<open>string\<close> (the UTF-8 bytes of the text). Every
  literal the installer searches for or compares with is ASCII, and an ASCII byte never
  occurs inside a multi-byte UTF-8 sequence, so the substring tests and the comparison
  with \<open>'y'\<close> agree with Python's tests on code points. The order of
  \<open>HOL-Library.List_Lexorder\<close> over \<open>HOL-Library.Char_ord\<close> is the order of Python's
  \<open>str\<close>: lexicographic, a proper prefix first.
\<close>

text \<open>\<open>needle in haystack\<close>: scan the haystack for a position where the needle starts.\<close>

fun str_in :: "string \<Rightarrow> string \<Rightarrow> bool" where
  "str_in needle [] = (needle = [])"
| "str_in needle (c # cs) = (prefix needle (c # cs) \<or> str_in needle cs)"

text \<open>
  \<open>str.lower()\<close> on the ASCII range. A non-ASCII character never lowers to the single
  character \<open>y\<close>, so the test \<open>response.lower() == 'y'\<close> is the same on the bytes.
\<close>

definition char_lower :: "char \<Rightarrow> char" where
  "char_lower c =
     (let n = (of_char c :: nat) in if 65 \<le> n \<and> n \<le> 90 then char_of (n + 32) else c)"

definition lower :: "string \<Rightarrow> string" where
  "lower s = map char_lower s"

text \<open>
  \<open>fnmatch\<close> for the patterns the installer uses: \<open>*\<close> matches any run of characters,
  every other character matches itself.
\<close>

fun fnmatch :: "string \<Rightarrow> string \<Rightarrow> bool" where
  "fnmatch [] [] = True"
| "fnmatch (c # cs) [] = False"
| "fnmatch [] (p # ps) = (p = CHR ''*'' \<and> fnmatch [] ps)"
| "fnmatch (c # cs) (p # ps) =
     (if p = CHR ''*'' then fnmatch (c # cs) ps \<or> fnmatch cs (p # ps)
      else c = p \<and> fnmatch cs ps)"

section \<open>Exceptions\<close>

text \<open>
  \<open>KeyboardInterrupt\<close> derives from \<open>BaseException\<close> only; the others are subclasses
  of \<open>Exception\<close>, which is what \<open>except Exception\<close> catches.
\<close>

datatype exn =
    KeyboardInterrupt
  | EOFError
  | FileNotFoundError
  | FileExistsError
  | NotADirectoryError
  | IsADirectoryError
  | PermissionError
  | UnicodeDecodeError
  | ShutilError

fun is_Exception :: "exn \<Rightarrow> bool" where
  "is_Exception KeyboardInterrupt = False"
| "is_Exception _ = True"

text \<open>Sequencing of steps that may raise, and \<open>try: ... except Exception:\<close>.\<close>

definition seq :: "exn + 'a \<Rightarrow> ('a \<Rightarrow> exn + 'b) \<Rightarrow> exn + 'b" where
  "seq m f = (case m of Inl e \<Rightarrow> Inl e | Inr a \<Rightarrow> f a)"

definition try_except :: "exn + 'a \<Rightarrow> (exn \<Rightarrow> exn + 'a) \<Rightarrow> exn + 'a" where
  "try_except m handler =
     (case m of Inl e \<Rightarrow> (if is_Exception e then handler e else Inl e) | Inr a \<Rightarrow> Inr a)"

section \<open>The file system under the home directory\<close>

text \<open>
  A directory is an association list from entry names to nodes; \<open>map_of\<close> reads it, so
  the first binding of a name is the entry. A regular file carries whether the installer
  may read it, and its text. Paths are relative to \<open>Path.home()\<close>.
\<close>

datatype node = File bool string | Dir "(string \<times> node) list"

type_synonym dir = "(string \<times> node) list"
type_synonym path = "string list"

fun lookup :: "dir \<Rightarrow> path \<Rightarrow> node option" where
  "lookup es [] = Some (Dir es)"
| "lookup es (x # p) =
     (case map_of es x of
        None \<Rightarrow> None
      | Some (File r c) \<Rightarrow> (if p = [] then Some (File r c) else None)
      | Some (Dir sub) \<Rightarrow> lookup sub p)"

fun put :: "dir \<Rightarrow> path \<Rightarrow> node \<Rightarrow> dir" where
  "put es [] v = es"
| "put es [x] v = AList.update x v es"
| "put es (x # y # p) v =
     (case map_of es x of
        Some (Dir sub) \<Rightarrow> AList.update x (Dir (put sub (y # p) v)) es
      | _ \<Rightarrow> es)"

text \<open>
  \<open>Path.exists()\<close> and \<open>os.path.isdir\<close>, on a tree all of whose directories the process
  may search. The last section of the model lifts that assumption for the credential
  check.
\<close>

definition path_exists :: "dir \<Rightarrow> path \<Rightarrow> bool" where
  "path_exists es p = (lookup es p \<noteq> None)"

definition is_dir :: "dir \<Rightarrow> path \<Rightarrow> bool" where
  "is_dir es p = (case lookup es p of Some (Dir sub) \<Rightarrow> True | _ \<Rightarrow> False)"

text \<open>
  \<open>open(p, 'r').read()\<close>, the bytes of a readable file being taken to decode in the
  locale's encoding. The last section of the model lifts that assumption too.
\<close>

definition read_text :: "dir \<Rightarrow> path \<Rightarrow> exn + string" where
  "read_text es p =
     (case lookup es p of
        None \<Rightarrow> Inl FileNotFoundError
      | Some (Dir sub) \<Rightarrow> Inl IsADirectoryError
      | Some (File r c) \<Rightarrow> (if r then Inr c else Inl PermissionError))"

text \<open>
  \<open>open(p, 'w').write(text)\<close>: the parent must be a directory and the target must not be
  one; an existing file is truncated and keeps its permissions.
\<close>

definition write_text :: "dir \<Rightarrow> path \<Rightarrow> string \<Rightarrow> exn + dir" where
  "write_text es p content =
     (case lookup es (butlast p) of
        None \<Rightarrow> Inl FileNotFoundError
      | Some (File r c) \<Rightarrow> Inl NotADirectoryError
      | Some (Dir sub) \<Rightarrow>
          (case lookup es p of
             None \<Rightarrow> Inr (put es p (File True content))
           | Some (File r c) \<Rightarrow> Inr (put es p (File r content))
           | Some (Dir sub') \<Rightarrow> Inl IsADirectoryError))"

text \<open>\<open>open(p, 'a').write(text)\<close>.\<close>

definition append_text :: "dir \<Rightarrow> path \<Rightarrow> string \<Rightarrow> exn + dir" where
  "append_text es p content =
     (case lookup es p of
        Some (File r c) \<Rightarrow> write_text es p (c @ content)
      | _ \<Rightarrow> write_text es p content)"

text \<open>\<open>Path.mkdir(parents=True, exist_ok=True)\<close> for an entry of the home directory.\<close>

definition mkdir_p :: "dir \<Rightarrow> string \<Rightarrow> exn + dir" where
  "mkdir_p es name =
     (case map_of es name of
        None \<Rightarrow> Inr (AList.update name (Dir []) es)
      | Some (Dir sub) \<Rightarrow> Inr es
      | Some (File r c) \<Rightarrow> Inl FileExistsError)"

text \<open>
  \<open>shutil.copy2(src, dst)\<close>: a destination that is a directory receives the file under
  the source's base name; the copy carries the source's permissions, and the source was
  readable.
\<close>

definition copy2 :: "dir \<Rightarrow> path \<Rightarrow> path \<Rightarrow> exn + dir" where
  "copy2 es src dst =
     (case read_text es src of
        Inl e \<Rightarrow> Inl e
      | Inr content \<Rightarrow>
          (let dst' = (if is_dir es dst then dst @ [last src] else dst) in
           case write_text es dst' content of
             Inl e \<Rightarrow> Inl e
           | Inr es' \<Rightarrow> Inr (put es' dst' (File True content))))"

text \<open>
  \<open>shutil.move(src, dst)\<close> between two entries of the home directory. A destination that
  is an existing directory receives the source inside it, unless an entry of the source's
  name is already there. Otherwise the source is renamed: a missing source fails, a
  directory cannot replace a regular file, a regular file replaces one.
\<close>

definition shutil_move :: "string \<Rightarrow> string \<Rightarrow> dir \<Rightarrow> exn + dir" where
  "shutil_move src dst es =
     (case map_of es dst of
        Some (Dir sub) \<Rightarrow>
          (if map_of sub src \<noteq> None then Inl ShutilError
           else (case map_of es src of
                   None \<Rightarrow> Inl FileNotFoundError
                 | Some n \<Rightarrow>
                     Inr (AList.update dst (Dir (AList.update src n sub)) (AList.delete src es))))
      | Some (File r c) \<Rightarrow>
          (case map_of es src of
             None \<Rightarrow> Inl FileNotFoundError
           | Some (Dir sub) \<Rightarrow> Inl FileExistsError
           | Some (File r' c') \<Rightarrow> Inr (AList.update dst (File r' c') (AList.delete src es)))
      | None \<Rightarrow>
          (case map_of es src of
             None \<Rightarrow> Inl FileNotFoundError
           | Some n \<Rightarrow> Inr (AList.update dst n (AList.delete src es))))"

text \<open>\<open>Path.home().glob(pattern)\<close>: the names of the home directory that match.\<close>

definition glob :: "dir \<Rightarrow> string \<Rightarrow> string list" where
  "glob es pattern = filter (\<lambda>name. fnmatch name pattern) (map fst es)"

text \<open>\<open>os.chdir(p)\<close>.\<close>

definition chdir :: "dir \<Rightarrow> path \<Rightarrow> exn + unit" where
  "chdir es p =
     (case lookup es p of
        None \<Rightarrow> Inl FileNotFoundError
      | Some (File r c) \<Rightarrow> Inl NotADirectoryError
      | Some (Dir sub) \<Rightarrow> Inr ())"

section \<open>The installer and its machine\<close>

text \<open>
  What the installer prints and asks, in order. A prompt is an event of its own; the
  status lines carry their level and the fixed part of their text.
\<close>

datatype level = Success | Error | Warning | Info

datatype question = BackupQ | RestoreQ | ConfigureQ | PressEnterQ

datatype event =
    Header string
  | Status level string
  | Asked question
  | Launched
  | ManualSteps

text \<open>A line typed at a prompt, or an interrupt (Ctrl-C) while the prompt waits.\<close>

datatype keyboard = Line string | CtrlC

text \<open>
  An editor of the host: not installed, or a session in which the user saves a text or
  leaves the file as it is.
\<close>

datatype editor = NotInstalled | Session "string option"

text \<open>
  The fields of \<open>StitchKitInstaller\<close> (\<open>verbose\<close>, \<open>env_restored\<close>,
  \<open>env_has_credentials\<close>; \<open>install_dir\<close> is the constant below), the home directory,
  the terminal, and what the host answers to the calls the installer makes outside
  itself: the interpreter's version and arguments, the \<open>SHELL\<close> variable, the formatted
  clock, the two \<open>pip\<close> runs, the editors and the target application (a return code, or
  the exception the call raises). The external processes are opaque: of everything they
  may do, the model keeps the editor's saving of the configuration file.
\<close>

record machine =
  verbose :: bool
  env_restored :: bool
  env_has_credentials :: bool
  home :: dir
  stdin :: "keyboard list"
  tty :: "event list"
  version_info :: "nat \<times> nat"
  argv :: "string list"
  shell_var :: "string option"
  now :: string
  pip_upgrade :: "exn + int"
  pip_install :: "exn + int"
  nano :: editor
  vi :: editor
  target_app :: "exn + int"

definition install_name :: string where
  "install_name = ''StitchKit''"

definition install_dir :: path where
  "install_dir = [install_name]"

definition print_header :: "string \<Rightarrow> machine \<Rightarrow> machine" where
  "print_header text s = s\<lparr>tty := tty s @ [Header text]\<rparr>"

definition print_status :: "string \<Rightarrow> level \<Rightarrow> machine \<Rightarrow> machine" where
  "print_status message status s = s\<lparr>tty := tty s @ [Status status message]\<rparr>"

definition print_success :: "string \<Rightarrow> machine \<Rightarrow> machine" where
  "print_success message s = print_status message Success s"

definition print_error :: "string \<Rightarrow> machine \<Rightarrow> machine" where
  "print_error message s = print_status message Error s"

definition print_warning :: "string \<Rightarrow> machine \<Rightarrow> machine" where
  "print_warning message s = print_status message Warning s"

definition print_info :: "string \<Rightarrow> machine \<Rightarrow> machine" where
  "print_info message s = print_status message Info s"

text \<open>
  \<open>input(prompt)\<close>: the prompt is shown, then a line is read. End of input raises
  \<open>EOFError\<close>, an interrupt raises \<open>KeyboardInterrupt\<close>.
\<close>

definition input :: "question \<Rightarrow> machine \<Rightarrow> exn + (string \<times> machine)" where
  "input q s =
     (case stdin s of
        [] \<Rightarrow> Inl EOFError
      | CtrlC # rest \<Rightarrow> Inl KeyboardInterrupt
      | Line r # rest \<Rightarrow> Inr (r, s\<lparr>tty := tty s @ [Asked q], stdin := rest\<rparr>))"

text \<open>\<open>sys.version_info < (3, 7)\<close>: the comparison of tuples, on major and minor.\<close>

definition version_below :: "nat \<times> nat \<Rightarrow> nat \<times> nat \<Rightarrow> bool" where
  "version_below v floor =
     (fst v < fst floor \<or> (fst v = fst floor \<and> snd v < snd floor))"

definition check_python_version :: "machine \<Rightarrow> bool \<times> machine" where
  "check_python_version s =
     (if version_below (version_info s) (3, 7)
      then (False, print_error ''Python 3.7+ required'' s)
      else (True, print_success ''Python detected'' s))"

definition backup_pattern :: string where
  "backup_pattern = ''StitchKit.backup-*''"

definition backup_existing :: "machine \<Rightarrow> exn + (string option \<times> machine)" where
  "backup_existing s =
     (let timestamp = now s;
          backup_dir = ''StitchKit.backup-'' @ timestamp;
          s1 = print_info (''Creating backup at '' @ backup_dir) s
      in try_except
           (seq (shutil_move install_name backup_dir (home s1)) (\<lambda>es.
              Inr (Some backup_dir, print_success ''Backup created successfully'' (s1\<lparr>home := es\<rparr>))))
           (\<lambda>e. Inr (None, print_error ''Backup failed'' s1)))"

definition check_env_credentials :: "machine \<Rightarrow> exn + bool" where
  "check_env_credentials s =
     (let env_file = install_dir @ [''.env''] in
      if \<not> path_exists (home s) env_file then Inr False
      else try_except
             (seq (read_text (home s) env_file) (\<lambda>content.
                let has_canvas =
                      (str_in ''CANVAS_API_KEY='' content
                       \<and> \<not> str_in ''your_canvas_api_key_here'' content);
                    has_honorlock_key =
                      (str_in ''HONORLOCK_CONSUMER_KEY='' content
                       \<and> \<not> str_in ''your_honorlock_consumer_key_here'' content);
                    has_honorlock_secret =
                      (str_in ''HONORLOCK_SHARED_SECRET='' content
                       \<and> \<not> str_in ''your_honorlock_shared_secret_here'' content)
                in Inr (has_canvas \<and> has_honorlock_key \<and> has_honorlock_secret)))
             (\<lambda>e. Inr False))"

text \<open>
  The search for the latest backup, at the head of \<open>restore_env_from_backup\<close>:
  \<open>sorted(Path.home().glob(backup_pattern))\<close> and its last element, if any.
\<close>

definition latest_backup :: "dir \<Rightarrow> string option" where
  "latest_backup es =
     (let backups = sort (glob es backup_pattern) in
      if backups = [] then None else Some (last backups))"

definition restore_env_from_backup :: "machine \<Rightarrow> exn + (bool \<times> machine)" where
  "restore_env_from_backup s =
     (case latest_backup (home s) of
        None \<Rightarrow> Inr (False, s)
      | Some latest \<Rightarrow>
          (let backup_env = [latest, ''.env''] in
           if path_exists (home s) backup_env then
             (let s1 = print_warning (''Found backup configuration in '' @ latest) s in
              seq (input RestoreQ s1) (\<lambda>(response, s2).
                if lower response = ''y'' then
                  seq (mkdir_p (home s2) install_name) (\<lambda>es1.
                  seq (copy2 es1 backup_env (install_dir @ [''.env''])) (\<lambda>es2.
                    let s3 = print_success ''Configuration restored from backup'' (s2\<lparr>home := es2\<rparr>);
                        s4 = s3\<lparr>env_restored := True\<rparr>
                    in seq (check_env_credentials s4) (\<lambda>b.
                         Inr (True, s4\<lparr>env_has_credentials := b\<rparr>))))
                else Inr (False, s2)))
           else Inr (False, s)))"

definition check_existing_installation :: "machine \<Rightarrow> exn + (bool \<times> machine)" where
  "check_existing_installation s =
     (if path_exists (home s) install_dir then
        (let s1 = print_warning ''StitchKit already installed'' s;
             env_file = install_dir @ [''.env''];
             s2 = (if path_exists (home s1) env_file
                   then print_info ''Found existing .env configuration file'' s1 else s1)
         in seq (input BackupQ s2) (\<lambda>(response, s3).
              if lower response = ''y'' then
                seq (backup_existing s3) (\<lambda>(backup_dir, s4).
                  if backup_dir \<noteq> None
                  then seq (restore_env_from_backup s4) (\<lambda>(restored, s5). Inr (True, s5))
                  else Inr (True, s4))
              else Inr (True, s3)))
      else Inr (False, s))"

definition install_dependencies :: "machine \<Rightarrow> exn + (bool \<times> machine)" where
  "install_dependencies s =
     (let requirements_file = install_dir @ [''requirements.txt''] in
      if \<not> path_exists (home s) requirements_file
      then Inr (True, print_warning ''requirements.txt not found'' s)
      else
        (let s1 = print_info ''Installing Python dependencies...'' s in
         try_except
           (seq (pip_upgrade s1) (\<lambda>upgraded.
            seq (pip_install s1) (\<lambda>returncode.
              if returncode = 0
              then Inr (True, print_success ''Dependencies installed successfully'' s1)
              else Inr (False, print_error ''Failed to install dependencies'' s1))))
           (\<lambda>e. Inr (False, print_error ''Error installing dependencies'' s1))))"

text \<open>The template of \<open>create_basic_env\<close>, line by line (non-ASCII characters as UTF-8).\<close>

definition env_lines :: "string list" where
  \<open>env_lines =
    [''################################################################################'',
     ''#                                                                              #'',
     ''#                    '' @ [CHR 0xF0, CHR 0x9F, CHR 0x8E, CHR 0x93] @ '' StitchKit Environment Configuration '' @ [CHR 0xF0, CHR 0x9F, CHR 0x8E, CHR 0x93] @ ''                 #'',
     ''#                        University of St. Thomas                             #'',
     ''#                                                                              #'',
     ''################################################################################'',
     '''',
     ''#==============================================================================='',
     ''# '' @ [CHR 0xF0, CHR 0x9F, CHR 0x9A, CHR 0x80] @ '' APPLICATION SETTINGS'',
     ''#==============================================================================='',
     '''',
     ''# Application name and branding'',
     ''STITCHKIT_APP_NAME=StitchKit'',
     ''STITCHKIT_APP_FULL_NAME=St. Thomas Instructional Technology Command Hub Kit'',
     '''',
     ''# Logging level: DEBUG, INFO, WARNING, ERROR, CRITICAL'',
     ''STITCHKIT_LOG_LEVEL=INFO'',
     '''',
     ''#==============================================================================='',
     ''# '' @ [CHR 0xF0, CHR 0x9F, CHR 0x8E, CHR 0xA8] @ '' CANVAS CONFIGURATION - MAIN'',
     ''#==============================================================================='',
     '''',
     ''# [REQUIRED] Your Canvas API Key'',
     ''# '' @ [CHR 0xF0, CHR 0x9F, CHR 0x93, CHR 0x9D] @ '' How to get your Canvas API key:'',
     ''#    1. Log into Canvas (https://stthomas.instructure.com)'',
     ''#    2. Click on "Account" in the left sidebar'',
     ''#    3. Click on "Settings"'',
     ''#    4. Scroll down to "Approved Integrations"'',
     ''#    5. Click "+ New Access Token"'',
     ''#    6. Enter a purpose (e.g., "StitchKit Admin Tools")'',
     ''#    7. Leave expiration blank for permanent token (or set a date)'',
     ''#    8. Click "Generate Token"'',
     ''#    9. '' @ [CHR 0xE2, CHR 0x9A, CHR 0xA0, CHR 0xEF, CHR 0xB8, CHR 0x8F] @ '' COPY THE TOKEN NOW - you won'' @ [CHR 0x27] @ ''t see it again!'',
     ''#    10. Paste it below'',
     ''CANVAS_API_KEY=your_canvas_api_key_here'',
     '''',
     ''# Your Canvas instance URL'',
     ''CANVAS_BASE_URL=https://stthomas.instructure.com'',
     '''',
     ''# Your Canvas Account ID (usually 1 for main account)'',
     ''CANVAS_ACCOUNT_ID=1'',
     '''',
     ''#==============================================================================='',
     ''# '' @ [CHR 0xF0, CHR 0x9F, CHR 0x94, CHR 0x84] @ '' CANVAS MULTI-ENVIRONMENT SETUP (Future Feature)'',
     ''#==============================================================================='',
     ''# Note: These are placeholders for future multi-environment support'',
     ''# They are NOT currently active in StitchKit'',
     '''',
     ''# Production Environment (future feature)'',
     ''CANVAS_PROD_API_KEY=your_production_api_key_here'',
     ''CANVAS_PROD_BASE_URL=https://stthomas.instructure.com'',
     ''CANVAS_PROD_ACCOUNT_ID=1'',
     '''',
     ''# Test Environment (future feature)'',
     ''CANVAS_TEST_API_KEY=your_test_api_key_here'',
     ''CANVAS_TEST_BASE_URL=https://stthomas.test.instructure.com'',
     ''CANVAS_TEST_ACCOUNT_ID=1'',
     '''',
     ''# Default environment selection (future feature)'',
     ''CANVAS_DEFAULT_ENV=test'',
     '''',
     ''# Canvas integration toggle'',
     ''CANVAS_ENABLED=true'',
     '''',
     ''#==============================================================================='',
     ''# '' @ [CHR 0xF0, CHR 0x9F, CHR 0x93, CHR 0x9A] @ '' CANVAS CATALOG INTEGRATION'',
     ''#==============================================================================='',
     '''',
     ''# [OPTIONAL] Canvas Catalog API Token'',
     ''# '' @ [CHR 0xF0, CHR 0x9F, CHR 0x93, CHR 0x9D] @ '' How to get your Canvas Catalog token:'',
     ''#    1. Log into Canvas Catalog admin'',
     ''#    2. Navigate to Admin '' @ [CHR 0xE2, CHR 0x86, CHR 0x92] @ '' Settings '' @ [CHR 0xE2, CHR 0x86, CHR 0x92] @ '' API Access'',
     ''#    3. Generate a new API token'',
     ''#    4. Copy and paste it here'',
     ''CANVAS_CAT_API_TOKEN=your_canvas_catalog_token_here'',
     '''',
     ''#==============================================================================='',
     ''# '' @ [CHR 0xF0, CHR 0x9F, CHR 0x9B, CHR 0xA1, CHR 0xEF, CHR 0xB8, CHR 0x8F] @ '' HONORLOCK INTEGRATION'',
     ''#==============================================================================='',
     '''',
     ''# [REQUIRED] Honorlock Consumer Key'',
     ''# '' @ [CHR 0xF0, CHR 0x9F, CHR 0x93, CHR 0x9D] @ '' How to get Honorlock credentials:'',
     ''#    1. Contact your Honorlock representative'',
     ''#    2. Request LTI integration credentials for your institution'',
     ''#    3. They will provide the consumer key and shared secret'',
     ''HONORLOCK_CONSUMER_KEY=your_honorlock_consumer_key_here'',
     '''',
     ''# [REQUIRED] Honorlock Shared Secret'',
     ''# '' @ [CHR 0xE2, CHR 0x9A, CHR 0xA0, CHR 0xEF, CHR 0xB8, CHR 0x8F] @ '' Keep this secret! Do not share or commit to version control'',
     ''HONORLOCK_SHARED_SECRET=your_honorlock_shared_secret_here'',
     '''',
     ''# Honorlock Configuration URL (typically the same for all institutions)'',
     ''HONORLOCK_CONFIG_URL=https://app.honorlock.com/lti_config'',
     '''',
     ''#==============================================================================='',
     ''# '' @ [CHR 0xF0, CHR 0x9F, CHR 0x93, CHR 0x9D] @ '' IMPORTANT NOTES'',
     ''#==============================================================================='',
     ''# '',
     ''# '' @ [CHR 0xE2, CHR 0x9A, CHR 0xA0, CHR 0xEF, CHR 0xB8, CHR 0x8F] @ '' REQUIRED FIELDS:'',
     ''#    '' @ [CHR 0xE2, CHR 0x80, CHR 0xA2] @ '' CANVAS_API_KEY - Must be set for StitchKit to function'',
     ''#    '' @ [CHR 0xE2, CHR 0x80, CHR 0xA2] @ '' HONORLOCK_CONSUMER_KEY - Required for Honorlock integration'',
     ''#    '' @ [CHR 0xE2, CHR 0x80, CHR 0xA2] @ '' HONORLOCK_SHARED_SECRET - Required for Honorlock integration'',
     ''#'',
     ''# '' @ [CHR 0xF0, CHR 0x9F, CHR 0x92, CHR 0xA1] @ '' SECURITY REMINDER:'',
     ''#    '' @ [CHR 0xE2, CHR 0x80, CHR 0xA2] @ '' Never commit this .env file to Git'',
     ''#    '' @ [CHR 0xE2, CHR 0x80, CHR 0xA2] @ '' Keep your API keys secret and secure'',
     ''#    '' @ [CHR 0xE2, CHR 0x80, CHR 0xA2] @ '' This file contains sensitive credentials'',
     ''#'',
     ''#==============================================================================='']\<close>

definition env_content :: string where
  "env_content = concat (map (\<lambda>l. l @ [CHR 0x0A]) env_lines)"

definition create_basic_env :: "machine \<Rightarrow> exn + machine" where
  "create_basic_env s =
     (let env_file = install_dir @ [''.env''] in
      seq (write_text (home s) env_file env_content) (\<lambda>es.
        Inr (print_success ''Created .env configuration file'' (s\<lparr>home := es\<rparr>))))"

definition setup_environment :: "machine \<Rightarrow> exn + (bool \<times> machine)" where
  "setup_environment s =
     (let env_file = install_dir @ [''.env''] in
      if env_restored s \<and> path_exists (home s) env_file then Inr (True, s)
      else
        seq (if \<not> path_exists (home s) env_file then create_basic_env s else Inr s) (\<lambda>s1.
          Inr (True, s1)))"

definition alias_line :: string where
  \<open>alias_line = ''alias stitchkit="cd ~/StitchKit && python3 main.py"''\<close>

definition create_alias :: "machine \<Rightarrow> exn + machine" where
  "create_alias s =
     try_except
       (let shell = (case shell_var s of None \<Rightarrow> ''/bin/bash'' | Some v \<Rightarrow> v);
            rc_file = (if str_in ''zsh'' shell then ''.zshrc''
                       else if str_in ''bash'' shell then ''.bashrc''
                       else ''.profile'')
        in seq (if path_exists (home s) [rc_file]
                then seq (read_text (home s) [rc_file]) (\<lambda>text.
                       Inr (str_in ''alias stitchkit='' text))
                else Inr False) (\<lambda>present.
             if present then Inr (print_info ''Alias stitchkit already exists'' s)
             else
               seq (append_text (home s) [rc_file]
                      ([CHR 0x0A] @ ''# StitchKit alias'' @ [CHR 0x0A] @ alias_line @ [CHR 0x0A]))
                 (\<lambda>es.
                    Inr (print_info ''Note: Run source or restart terminal to use alias''
                          (print_success (''Created stitchkit alias in '' @ rc_file)
                            (s\<lparr>home := es\<rparr>))))))
       (\<lambda>e. Inr (print_warning ''Could not create alias'' s))"

text \<open>
  \<open>subprocess.call([editor, env_file])\<close>: \<open>FileNotFoundError\<close> when the editor is not
  installed; otherwise the session runs, and a text the user saves replaces the file's.
\<close>

definition call_editor :: "editor \<Rightarrow> path \<Rightarrow> machine \<Rightarrow> exn + machine" where
  "call_editor ed p s =
     (case ed of
        NotInstalled \<Rightarrow> Inl FileNotFoundError
      | Session None \<Rightarrow> Inr s
      | Session (Some text) \<Rightarrow>
          (case write_text (home s) p text of
             Inl e \<Rightarrow> Inr s
           | Inr es \<Rightarrow> Inr (s\<lparr>home := es\<rparr>)))"

definition guide_env_setup :: "machine \<Rightarrow> exn + machine" where
  "guide_env_setup s =
     (let s1 = print_header ''Configure Canvas API Credentials'' s in
      seq (input PressEnterQ s1) (\<lambda>(pressed, s2).
        let env_file = install_dir @ [''.env''];
            recheck = (\<lambda>s3.
              seq (check_env_credentials s3) (\<lambda>b.
                let s4 = s3\<lparr>env_has_credentials := b\<rparr> in
                if env_has_credentials s4
                then Inr (print_success ''Credentials configured successfully!'' s4)
                else Inr (print_warning ''Some credentials may still need to be configured'' s4)))
        in case call_editor (nano s2) env_file s2 of
             Inr s3 \<Rightarrow> recheck s3
           | Inl e \<Rightarrow>
               if e = FileNotFoundError then
                 (case call_editor (vi s2) env_file s2 of
                    Inr s3 \<Rightarrow> recheck s3
                  | Inl e' \<Rightarrow>
                      if e' = FileNotFoundError
                      then Inr (print_error ''No text editor found. Please edit .env manually'' s2)
                      else Inl e')
               else Inl e))"

definition show_manual_next_steps :: "machine \<Rightarrow> machine" where
  "show_manual_next_steps s = s\<lparr>tty := tty s @ [ManualSteps]\<rparr>"

text \<open>
  The launch of the target application, written twice in \<open>run\<close>: \<open>os.chdir\<close> to the
  install directory and \<open>subprocess.call\<close>, inside \<open>try: ... except Exception:\<close>.
\<close>

definition launch :: "machine \<Rightarrow> exn + machine" where
  "launch s =
     try_except
       (seq (chdir (home s) install_dir) (\<lambda>u.
        seq (target_app s) (\<lambda>returncode.
          Inr (s\<lparr>tty := tty s @ [Launched]\<rparr>))))
       (\<lambda>e. Inr (show_manual_next_steps (print_error ''Could not launch StitchKit'' s)))"

text \<open>
  The branch of \<open>run\<close> taken when the credentials are not complete: the offer to
  configure them now, the guided edit on acceptance, and the launch or the manual steps.
\<close>

definition offer_configuration :: "machine \<Rightarrow> exn + (bool \<times> machine)" where
  "offer_configuration s =
     (let s1 = print_warning ''API credentials need to be configured'' s in
      seq (input ConfigureQ s1) (\<lambda>(response, s2).
        if lower response = ''y'' then
          seq (guide_env_setup s2) (\<lambda>s3.
            if env_has_credentials s3
            then seq (launch s3) (\<lambda>s4. Inr (True, s4))
            else Inr (True, show_manual_next_steps s3))
        else Inr (True, show_manual_next_steps s2)))"

definition run :: "machine \<Rightarrow> exn + (bool \<times> machine)" where
  "run s0 =
     (let s1 = print_header ''StitchKit Python Installer'' s0;
          s2 = (if ''--verbose'' \<in> set (argv s1) then s1\<lparr>verbose := True\<rparr> else s1);
          (version_ok, s3) = check_python_version s2
      in if \<not> version_ok then Inr (False, s3)
         else
           seq (check_existing_installation s3) (\<lambda>(existing, s4).
           seq (if \<not> path_exists (home s4) install_dir
                then seq (mkdir_p (home s4) install_name) (\<lambda>es.
                       Inr ((print_info ''Creating installation directory'' s4)\<lparr>home := es\<rparr>))
                else Inr s4) (\<lambda>s5.
           seq (install_dependencies s5) (\<lambda>(deps_ok, s6).
           let s7 = (if \<not> deps_ok
                     then print_warning ''Some dependencies may not have installed correctly'' s6
                     else s6)
           in
           seq (setup_environment s7) (\<lambda>(env_ok, s8).
           if \<not> env_ok then Inr (False, s8)
           else
             seq (create_alias s8) (\<lambda>s9.
             seq (if \<not> env_has_credentials s9
                  then seq (check_env_credentials s9) (\<lambda>b. Inr (s9\<lparr>env_has_credentials := b\<rparr>))
                  else Inr s9) (\<lambda>s10.
             if env_has_credentials s10
             then seq (launch (print_success ''StitchKit is ready to use!'' s10)) (\<lambda>s11.
                    Inr (True, s11))
             else offer_configuration s10)))))))"

text \<open>
  \<open>main\<close>: a fresh \<open>StitchKitInstaller\<close> on the machine, \<open>run\<close>, and the exit code. The
  branches of the source are kept apart: the \<open>KeyboardInterrupt\<close> handler first, then
  the \<open>Exception\<close> handler.
\<close>

definition new_installer :: "machine \<Rightarrow> machine" where
  "new_installer s = s\<lparr>verbose := False, env_restored := False, env_has_credentials := False\<rparr>"

definition main :: "machine \<Rightarrow> int" where
  "main s =
     (case run (new_installer s) of
        Inr (success, s') \<Rightarrow> (if success then 0 else 1)
      | Inl e \<Rightarrow> (if e = KeyboardInterrupt then 1 else 1))"

section \<open>Directories without search permission, files that do not decode\<close>

text \<open>
  \<open>Path.exists()\<close> calls \<open>stat\<close> and ignores only the errors ENOENT, ENOTDIR, EBADF and
  ELOOP: for a path below a directory that the process may not search it raises
  \<open>PermissionError\<close>, as \<open>open\<close> does. \<open>read()\<close> in text mode raises
  \<open>UnicodeDecodeError\<close> on bytes that are not valid in the locale's encoding. Here the
  directories without search permission are listed beside the tree, the decoder of the
  locale is a parameter, and \<open>check_env_credentials\<close> is read again over them, the call of
  \<open>exists\<close> before the \<open>try\<close> as in the source.
\<close>

definition denied :: "path list \<Rightarrow> dir \<Rightarrow> path \<Rightarrow> bool" where
  "denied locked es p = list_ex (\<lambda>d. strict_prefix d p \<and> is_dir es d) locked"

definition exists_under :: "path list \<Rightarrow> dir \<Rightarrow> path \<Rightarrow> exn + bool" where
  "exists_under locked es p =
     (if denied locked es p then Inl PermissionError else Inr (path_exists es p))"

definition read_text_under ::
  "path list \<Rightarrow> (string \<Rightarrow> bool) \<Rightarrow> dir \<Rightarrow> path \<Rightarrow> exn + string" where
  "read_text_under locked decodes es p =
     (if denied locked es p then Inl PermissionError
      else (case read_text es p of
              Inl e \<Rightarrow> Inl e
            | Inr bytes \<Rightarrow> (if decodes bytes then Inr bytes else Inl UnicodeDecodeError)))"

definition check_env_credentials_under ::
  "path list \<Rightarrow> (string \<Rightarrow> bool) \<Rightarrow> machine \<Rightarrow> exn + bool" where
  "check_env_credentials_under locked decodes s =
     (let env_file = install_dir @ [''.env''] in
      seq (exists_under locked (home s) env_file) (\<lambda>present.
        if \<not> present then Inr False
        else try_except
               (seq (read_text_under locked decodes (home s) env_file) (\<lambda>content.
                  let has_canvas =
                        (str_in ''CANVAS_API_KEY='' content
                         \<and> \<not> str_in ''your_canvas_api_key_here'' content);
                      has_honorlock_key =
                        (str_in ''HONORLOCK_CONSUMER_KEY='' content
                         \<and> \<not> str_in ''your_honorlock_consumer_key_here'' content);
                      has_honorlock_secret =
                        (str_in ''HONORLOCK_SHARED_SECRET='' content
                         \<and> \<not> str_in ''your_honorlock_shared_secret_here'' content)
                  in Inr (has_canvas \<and> has_honorlock_key \<and> has_honorlock_secret)))
               (\<lambda>e. Inr False)))"

section \<open>The specification's vocabulary\<close>

definition env_file :: path where
  "env_file = install_dir @ [''.env'']"

text \<open>
  The completeness of a configuration text in the specification's words: each required
  field name occurs followed by \<open>=\<close>, and that field's placeholder occurs nowhere.
\<close>

definition required_fields :: "(string \<times> string) list" where
  "required_fields =
     [(''CANVAS_API_KEY'', ''your_canvas_api_key_here''),
      (''HONORLOCK_CONSUMER_KEY'', ''your_honorlock_consumer_key_here''),
      (''HONORLOCK_SHARED_SECRET'', ''your_honorlock_shared_secret_here'')]"

definition isComplete :: "string \<Rightarrow> bool" where
  "isComplete config_text =
     list_all (\<lambda>(field_name, placeholder).
                 sublist (field_name @ ''='') config_text \<and> \<not> sublist placeholder config_text)
       required_fields"

section \<open>Concrete machines\<close>

definition host :: machine where
  "host =
     \<lparr>verbose = False, env_restored = False, env_has_credentials = False,
      home = [], stdin = [], tty = [],
      version_info = (3, 11), argv = [''install_stitchkit.py''],
      shell_var = Some ''/bin/bash'', now = ''20240101-120000'',
      pip_upgrade = Inr 0, pip_install = Inr 0,
      nano = Session None, vi = NotInstalled, target_app = Inr 0\<rparr>"

text \<open>A home directory whose only entry is the installation, holding the given \<open>.env\<close>.\<close>

definition installed :: "node \<Rightarrow> dir" where
  "installed env = [(''StitchKit'', Dir [(''.env'', env)])]"

definition filled_text :: string where
  "filled_text =
     ''CANVAS_API_KEY=abc123'' @ [CHR 0x0A] @
     ''HONORLOCK_CONSUMER_KEY=key456'' @ [CHR 0x0A] @
     ''HONORLOCK_SHARED_SECRET=secret789'' @ [CHR 0x0A]"

definition empty_values_text :: string where
  "empty_values_text =
     ''CANVAS_API_KEY='' @ [CHR 0x0A] @
     ''HONORLOCK_CONSUMER_KEY='' @ [CHR 0x0A] @
     ''HONORLOCK_SHARED_SECRET='' @ [CHR 0x0A]"

definition commented_placeholder_text :: string where
  "commented_placeholder_text =
     ''# replace your_canvas_api_key_here with the token'' @ [CHR 0x0A] @ filled_text"

text \<open>A home directory with three backups, listed in no particular order.\<close>

definition three_backups :: dir where
  "three_backups =
     [(''StitchKit.backup-20240215-093000'', Dir []),
      (''.bashrc'', File True []),
      (''StitchKit.backup-20240301-000000'', Dir []),
      (''StitchKit'', Dir []),
      (''StitchKit.backup-20231231-235959'', Dir [])]"

text \<open>The name \<open>backup_existing\<close> gives the backup it makes.\<close>

definition backup_name :: "machine \<Rightarrow> string" where
  "backup_name s = ''StitchKit.backup-'' @ now s"

text \<open>
  The machine once \<open>check_existing_installation\<close> has announced the installation it
  found and read the answer to its question.
\<close>

definition after_backup_question :: "machine \<Rightarrow> keyboard list \<Rightarrow> machine" where
  "after_backup_question s rest =
     s\<lparr>tty := tty s
              @ Status Warning ''StitchKit already installed''
                # (if path_exists (home s) env_file
                   then [Status Info ''Found existing .env configuration file''] else [])
              @ [Asked BackupQ],
       stdin := rest\<rparr>"


text \<open>The home directory once a configuration text has been restored into a new installation.\<close>

definition restored_home :: "dir \<Rightarrow> string \<Rightarrow> dir" where
  "restored_home es c = AList.update install_name (Dir [(''.env'', File True c)]) es"

text \<open>A home directory holding one earlier backup and no installation.\<close>

definition only_backup :: dir where
  "only_backup = [(''StitchKit.backup-20230101-000000'', Dir [(''.env'', File True filled_text)])]"

text \<open>
  A machine with an installation and a stale backup whose name is later than any backup
  made now; the stale backup holds another configuration text.
\<close>

definition stale_home :: dir where
  "stale_home =
     [(''StitchKit'', Dir [(''.env'', File True filled_text)]),
      (''StitchKit.backup-20991231-235959'', Dir [(''.env'', File True commented_placeholder_text)])]"

definition stale_home_after_backup :: dir where
  "stale_home_after_backup =
     [(''StitchKit.backup-20991231-235959'', Dir [(''.env'', File True commented_placeholder_text)]),
      (''StitchKit.backup-20240101-120000'', Dir [(''.env'', File True filled_text)])]"

text \<open>
  Two machines that differ in what is on the terminal only, the second having more of it;
  and the machine \<open>run\<close> hands to \<open>check_existing_installation\<close> once the version check
  has passed.
\<close>

definition only_terminal :: "machine \<Rightarrow> machine \<Rightarrow> bool" where
  "only_terminal s s' = (s'\<lparr>tty := tty s\<rparr> = s \<and> prefix (tty s) (tty s'))"

definition after_version_check :: "machine \<Rightarrow> machine" where
  "after_version_check s =
     print_success ''Python detected''
       (if ''--verbose'' \<in> set (argv (print_header ''StitchKit Python Installer'' s))
        then (print_header ''StitchKit Python Installer'' s)\<lparr>verbose := True\<rparr>
        else print_header ''StitchKit Python Installer'' s)"

text \<open>
  The selection in the words of the specification's sentence on the restore step: the
  greatest name among the directories of the home directory that match the backup
  pattern.
\<close>

definition greatest_backup_directory :: "dir \<Rightarrow> string option" where
  "greatest_backup_directory es =
     (let names = sort (filter (\<lambda>name. fnmatch name backup_pattern \<and> is_dir es [name])
                          (map fst es))
      in if names = [] then None else Some (last names))"

text \<open>
  A machine with an installation, an earlier backup, and a regular file whose name
  matches the backup pattern and is greater than the name of any backup; and the same
  machine once \<open>backup_existing\<close> has made its backup.
\<close>

definition shadowed :: machine where
  "shadowed =
     host\<lparr>home :=
            [(''StitchKit'', Dir [(''.env'', File True filled_text)]),
             (''StitchKit.backup-20230101-000000'', Dir [(''.env'', File True empty_values_text)]),
             (''StitchKit.backup-9.tar.gz'', File True ''archive'')],
          stdin := [Line ''y'']\<rparr>"

definition shadowed_after_backup :: machine where
  "shadowed_after_backup =
     host\<lparr>home :=
            [(''StitchKit.backup-20230101-000000'', Dir [(''.env'', File True empty_values_text)]),
             (''StitchKit.backup-9.tar.gz'', File True ''archive''),
             (''StitchKit.backup-20240101-120000'', Dir [(''.env'', File True filled_text)])],
          stdin := [Line ''y''],
          tty := [Status Info ''Creating backup at StitchKit.backup-20240101-120000'',
                  Status Success ''Backup created successfully'']\<rparr>"

text \<open>
  A decoder that accepts the ASCII texts only, and a configuration text with one byte
  outside ASCII that is not valid UTF-8 either.
\<close>

definition decodes_ascii :: "string \<Rightarrow> bool" where
  "decodes_ascii bytes = list_all (\<lambda>c. (of_char c :: nat) < 128) bytes"

definition latin1_text :: string where
  "latin1_text = ''# cl'' @ [CHR 0xE9] @ ''s'' @ [CHR 0x0A] @ filled_text"

section \<open>Strings and exceptions: basic facts\<close>

lemmas print_defs =
  print_header_def print_status_def print_success_def print_error_def print_warning_def
  print_info_def show_manual_next_steps_def

lemma str_in_sublist: "str_in needle hay = sublist needle hay"
  by (induction hay) (auto simp: sublist_Cons_right)

lemma char_is_y: "(d = CHR ''y'') = (of_char d = (121::nat))"
  by (subst of_char_eq_iff [where ?'a = nat, symmetric]) simp

lemma char_is_Y: "(d = CHR ''Y'') = (of_char d = (89::nat))"
  by (subst of_char_eq_iff [where ?'a = nat, symmetric]) simp

lemma char_lower_y: "char_lower c = CHR ''y'' \<longleftrightarrow> c = CHR ''y'' \<or> c = CHR ''Y''"
proof (cases "65 \<le> (of_char c :: nat) \<and> (of_char c :: nat) \<le> 90")
  case True
  then have "char_lower c = char_of ((of_char c :: nat) + 32)"
    by (simp add: char_lower_def Let_def)
  moreover have "((of_char c :: nat) + 32) mod 256 = of_char c + 32"
    using True by simp
  ultimately show ?thesis
    using True by (auto simp: char_is_y char_is_Y of_char_of)
next
  case False
  then have "char_lower c = c"
    by (auto simp: char_lower_def Let_def)
  then show ?thesis
    using False by (auto simp: char_is_y char_is_Y)
qed

lemma lower_is_y: "lower r = ''y'' \<longleftrightarrow> r = ''y'' \<or> r = ''Y''"
proof (cases r)
  case Nil
  then show ?thesis by (simp add: lower_def)
next
  case (Cons c cs)
  then show ?thesis by (cases cs) (auto simp: lower_def char_lower_y)
qed

lemma read_text_Exception: "read_text es p = Inl e \<Longrightarrow> is_Exception e"
  by (auto simp: read_text_def split: option.splits node.splits if_splits)

lemma read_text_exists: "read_text es p = Inr c \<Longrightarrow> path_exists es p"
  by (auto simp: read_text_def path_exists_def split: option.splits)

lemma read_installed: "read_text (installed (File True c)) env_file = Inr c"
  by (simp add: read_text_def installed_def env_file_def install_dir_def install_name_def)

section \<open>The credential check\<close>

lemma check_env_credentials_readable:
  assumes "read_text (home s) env_file = Inr c"
  shows "check_env_credentials s =
           Inr ((sublist ''CANVAS_API_KEY='' c \<and> \<not> sublist ''your_canvas_api_key_here'' c)
              \<and> (sublist ''HONORLOCK_CONSUMER_KEY='' c
                  \<and> \<not> sublist ''your_honorlock_consumer_key_here'' c)
              \<and> (sublist ''HONORLOCK_SHARED_SECRET='' c
                  \<and> \<not> sublist ''your_honorlock_shared_secret_here'' c))"
  using assms read_text_exists [OF assms]
  by (simp add: check_env_credentials_def env_file_def Let_def try_except_def seq_def
      str_in_sublist)

lemma check_env_credentials_unreadable:
  assumes "\<not> path_exists (home s) env_file \<or> isl (read_text (home s) env_file)"
  shows "check_env_credentials s = Inr False"
  using assms read_text_Exception [of "home s" env_file]
  by (auto simp: check_env_credentials_def env_file_def Let_def try_except_def seq_def isl_def
      split: sum.splits)

section \<open>The search for the latest backup\<close>

lemma fnmatch_star: "fnmatch name ''*''"
  by (induction name) auto

lemma fnmatch_literal_star:
  "CHR ''*'' \<notin> set lit \<Longrightarrow> fnmatch name (lit @ ''*'') = prefix lit name"
proof (induction lit arbitrary: name)
  case Nil
  then show ?case by (simp add: fnmatch_star)
next
  case (Cons p ps)
  then show ?case by (cases name) auto
qed

lemma fnmatch_backup_pattern: "fnmatch name backup_pattern = prefix ''StitchKit.backup-'' name"
  using fnmatch_literal_star [of "''StitchKit.backup-''" name]
  by (simp add: backup_pattern_def)

lemma set_glob_backups:
  "set (glob es backup_pattern) = {name \<in> fst ` set es. prefix ''StitchKit.backup-'' name}"
  by (auto simp: glob_def fnmatch_backup_pattern)

lemma last_sorted_Max:
  fixes xs :: "'a::linorder list"
  assumes "sorted xs" "xs \<noteq> []"
  shows "last xs = Max (set xs)"
proof -
  have "xs = butlast xs @ [last xs]" using assms(2) by simp
  then have "sorted (butlast xs @ [last xs])" using assms(1) by simp
  then have "\<forall>y \<in> set (butlast xs). y \<le> last xs"
    by (simp add: sorted_append)
  moreover have "set xs = insert (last xs) (set (butlast xs))"
    using \<open>xs = butlast xs @ [last xs]\<close> by (metis Un_insert_right append_Nil2 list.simps(15) set_append)
  ultimately show ?thesis
    by (intro Max_eqI [symmetric]) auto
qed

lemma sort_Nil_iff: "sort xs = [] \<longleftrightarrow> xs = []"
  by (metis length_sort length_0_conv)

lemma latest_backup_Max:
  "latest_backup es =
     (if set (glob es backup_pattern) = {} then None
      else Some (Max (set (glob es backup_pattern))))"
proof (cases "glob es backup_pattern = []")
  case True
  then show ?thesis by (simp add: latest_backup_def)
next
  case False
  then have "sort (glob es backup_pattern) \<noteq> []" by (simp add: sort_Nil_iff)
  then have "last (sort (glob es backup_pattern)) = Max (set (glob es backup_pattern))"
    using last_sorted_Max [of "sort (glob es backup_pattern)"] by simp
  then show ?thesis using False by (simp add: latest_backup_def sort_Nil_iff)
qed

lemma append_less_append: "(p @ xs < p @ ys) = (xs < (ys :: 'a::linorder list))"
  by (induction p) simp_all

lemma append_le_append: "(p @ xs \<le> p @ ys) = (xs \<le> (ys :: 'a::linorder list))"
  by (auto simp: le_less append_less_append)

lemma glob_three_backups: "glob three_backups backup_pattern =
         [''StitchKit.backup-20240215-093000'', ''StitchKit.backup-20240301-000000'',
          ''StitchKit.backup-20231231-235959'']"
  unfolding three_backups_def backup_pattern_def glob_def by code_simp

lemma names_three_backups: "{name \<in> fst ` set three_backups. prefix ''StitchKit.backup-'' name}
      = {''StitchKit.backup-'' @ ''20231231-235959'', ''StitchKit.backup-'' @ ''20240215-093000'',
         ''StitchKit.backup-'' @ ''20240301-000000''}"
  unfolding set_glob_backups [symmetric] glob_three_backups by (simp add: insert_commute)

section \<open>The backup step\<close>

lemma lookup_single: "lookup es [x] = map_of es x"
  by (simp split: option.splits node.splits)

lemma path_exists_single: "path_exists es [x] = (map_of es x \<noteq> None)"
  unfolding path_exists_def lookup_single by simp

lemma shutil_move_Exception: "shutil_move src dst es = Inl e \<Longrightarrow> is_Exception e"
  by (auto simp: shutil_move_def split: option.splits node.splits if_splits)


lemma shutil_move_source_gone:
  "shutil_move src dst es = Inr es' \<Longrightarrow> src \<noteq> dst \<Longrightarrow>
     map_of es' src = None \<and> map_of es' dst \<noteq> None
     \<and> (\<forall>x. x \<noteq> src \<longrightarrow> x \<noteq> dst \<longrightarrow> map_of es' x = map_of es x)"
  by (auto simp: shutil_move_def update_conv' delete_conv' split: option.splits node.splits if_splits)

lemma install_name_not_backup_name: "install_name \<noteq> backup_name s"
  by (simp add: install_name_def backup_name_def)

lemma backup_existing_cases:
  "backup_existing s =
     (case shutil_move install_name (backup_name s) (home s) of
        Inr es \<Rightarrow>
          Inr (Some (backup_name s),
               s\<lparr>tty := tty s @ [Status Info (''Creating backup at '' @ backup_name s),
                                  Status Success ''Backup created successfully''],
                 home := es\<rparr>)
      | Inl e \<Rightarrow>
          Inr (None,
               s\<lparr>tty := tty s @ [Status Info (''Creating backup at '' @ backup_name s),
                                  Status Error ''Backup failed'']\<rparr>))"
  using shutil_move_Exception [of install_name "backup_name s" "home s"]
  by (auto simp: backup_existing_def backup_name_def Let_def try_except_def seq_def
      print_info_def print_success_def print_error_def print_status_def split: sum.splits)

lemma check_existing_installation_absent:
  "\<not> path_exists (home s) install_dir \<Longrightarrow> check_existing_installation s = Inr (False, s)"
  by (simp add: check_existing_installation_def)

lemma check_existing_installation_answered:
  assumes "path_exists (home s) install_dir" "stdin s = Line r # rest"
  shows "check_existing_installation s =
           (if lower r = ''y'' then
              seq (backup_existing (after_backup_question s rest)) (\<lambda>(backup_dir, s4).
                if backup_dir \<noteq> None
                then seq (restore_env_from_backup s4) (\<lambda>(restored, s5). Inr (True, s5))
                else Inr (True, s4))
            else Inr (True, after_backup_question s rest))"
  using assms
  by (simp add: check_existing_installation_def after_backup_question_def env_file_def Let_def
      input_def seq_def print_warning_def print_info_def print_status_def)



section \<open>Paths of depth two\<close>

lemma lookup_two:
  "lookup es [a, b] = (case map_of es a of Some (Dir sub) \<Rightarrow> map_of sub b | _ \<Rightarrow> None)"
  by (simp add: lookup_single split: option.splits node.splits)

lemma put_two:
  "put es [a, b] v =
     (case map_of es a of Some (Dir sub) \<Rightarrow> AList.update a (Dir (AList.update b v sub)) es
      | _ \<Rightarrow> es)"
  by (simp split: option.splits node.splits)

lemma env_file_path: "env_file = [install_name, ''.env'']"
  by (simp add: env_file_def install_dir_def)

lemma write_text_env_new:
  assumes "map_of es install_name = Some (Dir sub)" "map_of sub ''.env'' = None"
  shows "write_text es env_file c
           = Inr (AList.update install_name (Dir (AList.update ''.env'' (File True c) sub)) es)"
  using assms
  by (simp add: write_text_def env_file_path lookup_two lookup_single put_two del: lookup.simps put.simps)

lemma latest_backup_not_install:
  assumes "latest_backup es = Some b"
  shows "b \<noteq> install_name" "prefix ''StitchKit.backup-'' b"
proof -
  have "b \<in> set (glob es backup_pattern)"
    using assms Max_in [of "set (glob es backup_pattern)"]
    by (auto simp: latest_backup_Max split: if_splits)
  then show "prefix ''StitchKit.backup-'' b"
    by (simp add: set_glob_backups)
  then show "b \<noteq> install_name"
    by (auto simp: install_name_def)
qed

section \<open>The restore step\<close>

lemma read_restored_home: "read_text (restored_home es c) env_file = Inr c"
  by (simp add: read_text_def restored_home_def env_file_path lookup_two update_conv'
      del: lookup.simps)

lemma read_text_other_entry:
  "b \<noteq> a \<Longrightarrow> read_text (AList.update a v es) [b, x] = read_text es [b, x]"
  by (simp add: read_text_def lookup_two update_conv' del: lookup.simps)

lemma copy2_into_fresh:
  assumes "map_of es install_name = None" "b \<noteq> install_name"
    and "read_text es [b, ''.env''] = Inr c"
  shows "copy2 (AList.update install_name (Dir []) es) [b, ''.env''] env_file
           = Inr (restored_home es c)"
proof -
  let ?es1 = "AList.update install_name (Dir []) es"
  have r: "read_text ?es1 [b, ''.env''] = Inr c"
    using assms by (simp add: read_text_other_entry)
  have d: "\<not> is_dir ?es1 env_file"
    by (simp add: is_dir_def env_file_path lookup_two update_conv' del: lookup.simps)
  have w: "write_text ?es1 env_file c
             = Inr (AList.update install_name (Dir [(''.env'', File True c)]) ?es1)"
    using write_text_env_new [of ?es1 "[]" c] by (simp add: update_conv')
  have p: "put (AList.update install_name (Dir [(''.env'', File True c)]) es') env_file
             (File True c) = AList.update install_name (Dir [(''.env'', File True c)]) es'" for es'
    by (simp add: env_file_path put_two update_conv' update_last del: put.simps)
  show ?thesis
    unfolding copy2_def r by (simp add: d w p Let_def restored_home_def update_last)
qed

lemma restore_env_from_backup_accepted:
  assumes "map_of (home s) install_name = None" "latest_backup (home s) = Some b"
    and "read_text (home s) [b, ''.env''] = Inr c"
    and "stdin s = Line r # rest" "lower r = ''y''"
  shows "restore_env_from_backup s =
           Inr (True,
                s\<lparr>tty := tty s @ [Status Warning (''Found backup configuration in '' @ b),
                                   Asked RestoreQ,
                                   Status Success ''Configuration restored from backup''],
                  stdin := rest,
                  home := restored_home (home s) c,
                  env_restored := True,
                  env_has_credentials := isComplete c\<rparr>)"
proof -
  have ne: "b \<noteq> install_name" using latest_backup_not_install(1) [OF assms(2)] .
  have ex: "path_exists (home s) [b, ''.env'']" using read_text_exists [OF assms(3)] .
  have mk: "mkdir_p (home s) install_name = Inr (AList.update install_name (Dir []) (home s))"
    using assms(1) by (simp add: mkdir_p_def)
  have cp: "copy2 (AList.update install_name (Dir []) (home s)) [b, ''.env''] (install_dir @ [''.env''])
              = Inr (restored_home (home s) c)"
    using copy2_into_fresh [OF assms(1) ne assms(3)] by (simp add: env_file_def)
  have ck: "check_env_credentials s' = Inr (isComplete c)" if "home s' = restored_home (home s) c" for s'
    using that check_env_credentials_readable [of s' c]
    by (simp add: read_restored_home isComplete_def required_fields_def)
  show ?thesis
    using assms(2,4,5) ex
    by (simp add: restore_env_from_backup_def input_def seq_def mk cp ck Let_def
        print_warning_def print_success_def print_status_def)
qed

lemma restore_env_from_backup_declined:
  assumes "latest_backup (home s) = Some b" "path_exists (home s) [b, ''.env'']"
    and "stdin s = Line r # rest" "lower r \<noteq> ''y''"
  shows "restore_env_from_backup s =
           Inr (False,
                s\<lparr>tty := tty s @ [Status Warning (''Found backup configuration in '' @ b),
                                   Asked RestoreQ],
                  stdin := rest\<rparr>)"
  using assms
  by (simp add: restore_env_from_backup_def input_def seq_def Let_def
      print_warning_def print_status_def)

lemma path_exists_env_file:
  "path_exists es env_file
     = (case map_of es install_name of Some (Dir sub) \<Rightarrow> map_of sub ''.env'' \<noteq> None
        | _ \<Rightarrow> False)"
  by (simp add: path_exists_def env_file_path lookup_two del: lookup.simps
      split: option.splits node.splits)

lemma create_basic_env_fresh:
  assumes "is_dir (home s) install_dir" "\<not> path_exists (home s) env_file"
  shows "\<exists>sub. map_of (home s) install_name = Some (Dir sub)
           \<and> create_basic_env s =
               Inr (s\<lparr>home := AList.update install_name
                                 (Dir (AList.update ''.env'' (File True env_content) sub)) (home s),
                       tty := tty s @ [Status Success ''Created .env configuration file'']\<rparr>)"
proof -
  obtain sub where sub: "map_of (home s) install_name = Some (Dir sub)"
    using assms(1)
    by (auto simp: is_dir_def install_dir_def lookup_single split: option.splits node.splits)
  then have "map_of sub ''.env'' = None"
    using assms(2) by (simp add: path_exists_env_file)
  then have "write_text (home s) (install_dir @ [''.env'']) env_content
           = Inr (AList.update install_name
                    (Dir (AList.update ''.env'' (File True env_content) sub)) (home s))"
    using write_text_env_new [OF sub] by (simp add: env_file_def)
  then show ?thesis
    using sub
    by (simp add: create_basic_env_def seq_def Let_def print_success_def print_status_def)
qed

lemma path_exists_restored_home: "path_exists (restored_home es c) env_file"
  using read_text_exists [OF read_restored_home] .

lemma restore_env_from_backup_restored:
  assumes absent: "map_of (home s) install_name = None"
    and res: "restore_env_from_backup s = Inr (ok, s')"
    and flag: "env_restored s' \<noteq> env_restored s"
  shows "\<exists>c. home s' = restored_home (home s) c"
proof (cases "latest_backup (home s)")
  case None
  then show ?thesis using res flag by (auto simp: restore_env_from_backup_def)
next
  case (Some b)
  show ?thesis
  proof (cases "path_exists (home s) [b, ''.env'']")
    case False
    then show ?thesis using Some res flag by (auto simp: restore_env_from_backup_def)
  next
    case True
    have "\<exists>r rest. stdin s = Line r # rest"
    proof (cases "stdin s")
      case Nil
      then have "restore_env_from_backup s = Inl EOFError"
        using Some True
        by (simp add: restore_env_from_backup_def input_def seq_def Let_def
            print_warning_def print_status_def)
      then show ?thesis using res by simp
    next
      case (Cons k ks)
      show ?thesis
      proof (cases k)
        case CtrlC
        then have "restore_env_from_backup s = Inl KeyboardInterrupt"
          using Some True Cons
          by (simp add: restore_env_from_backup_def input_def seq_def Let_def
              print_warning_def print_status_def)
        then show ?thesis using res by simp
      next
        case (Line r)
        then show ?thesis using Cons by simp
      qed
    qed
    then obtain r rest where input: "stdin s = Line r # rest" by blast
    show ?thesis
    proof (cases "lower r = ''y''")
      case False
      then show ?thesis
        using restore_env_from_backup_declined [OF Some True input] res flag by auto
    next
      case yes: True
      show ?thesis
      proof (cases "read_text (home s) [b, ''.env'']")
        case (Inr c)
        then show ?thesis
          using restore_env_from_backup_accepted [OF absent Some Inr input yes] res by auto
      next
        case (Inl e)
        have ne: "b \<noteq> install_name" using latest_backup_not_install(1) [OF Some] .
        have "copy2 (AList.update install_name (Dir []) (home s)) [b, ''.env''] p = Inl e" for p
          using Inl ne by (simp add: copy2_def read_text_other_entry)
        then have "restore_env_from_backup s = Inl e"
          using Some True input yes absent
          by (simp add: restore_env_from_backup_def input_def seq_def Let_def mkdir_p_def
              print_defs)
        then show ?thesis using res by simp
      qed
    qed
  qed
qed

lemma latest_only_backup: "latest_backup only_backup = Some ''StitchKit.backup-20230101-000000''"
  unfolding latest_backup_def glob_def only_backup_def backup_pattern_def by code_simp

lemma backup_existing_created:
  assumes "backup_existing s = Inr (Some b, s1)"
  shows "b = backup_name s"
    and "shutil_move install_name (backup_name s) (home s) = Inr (home s1)"
    and "stdin s1 = stdin s"
    and "map_of (home s1) install_name = None"
    and "map_of (home s1) b \<noteq> None"
proof -
  show b: "b = backup_name s"
    using assms by (auto simp: backup_existing_cases split: sum.splits)
  show mv: "shutil_move install_name (backup_name s) (home s) = Inr (home s1)"
    using assms by (auto simp: backup_existing_cases split: sum.splits)
  show "stdin s1 = stdin s"
    using assms by (auto simp: backup_existing_cases split: sum.splits)
  show "map_of (home s1) install_name = None" "map_of (home s1) b \<noteq> None"
    using shutil_move_source_gone [OF mv install_name_not_backup_name] b by blast+
qed

lemma map_of_in_fst: "map_of es x \<noteq> None \<Longrightarrow> x \<in> fst ` set es"
  by (metis map_of_eq_None_iff)

lemma stale_move:
  "shutil_move install_name (backup_name (host\<lparr>home := stale_home, stdin := ks\<rparr>)) stale_home
     = Inr stale_home_after_backup"
  by (simp add: shutil_move_def install_name_def backup_name_def host_def stale_home_def
      stale_home_after_backup_def)

lemma stale_latest:
  "latest_backup stale_home_after_backup = Some ''StitchKit.backup-20991231-235959''"
  unfolding latest_backup_def glob_def stale_home_after_backup_def backup_pattern_def
  by code_simp

section \<open>What the steps leave on the terminal\<close>

lemma input_Inr:
  "input q s = Inr (r, s') \<longleftrightarrow>
     (\<exists>rest. stdin s = Line r # rest \<and> s' = s\<lparr>tty := tty s @ [Asked q], stdin := rest\<rparr>)"
  by (auto simp: input_def split: list.splits keyboard.splits)

lemma seq_Inr: "seq m f = Inr y \<longleftrightarrow> (\<exists>x. m = Inr x \<and> f x = Inr y)"
  by (cases m) (simp_all add: seq_def)

lemma try_except_Inr:
  "try_except m h = Inr y \<longleftrightarrow> (m = Inr y \<or> (\<exists>e. m = Inl e \<and> is_Exception e \<and> h e = Inr y))"
  by (cases m) (auto simp: try_except_def)

lemma check_env_credentials_total: "\<exists>b. check_env_credentials s = Inr b"
proof (cases "read_text (home s) env_file")
  case (Inl e)
  then show ?thesis using check_env_credentials_unreadable [of s] by auto
next
  case (Inr c)
  then show ?thesis using check_env_credentials_readable [of s c] by simp
qed

lemma restore_env_from_backup_tty:
  assumes "restore_env_from_backup s = Inr (ok, s')"
  shows "prefix (tty s) (tty s')"
  using assms
  by (auto simp: restore_env_from_backup_def Let_def seq_Inr input_Inr print_defs
      split: option.splits if_splits)

lemma restore_env_from_backup_yes:
  assumes "latest_backup (home s) = Some b" "path_exists (home s) [b, ''.env'']"
    and "stdin s = Line r # rest" "lower r = ''y''"
    and "restore_env_from_backup s = Inr (ok, s')"
  shows "ok \<and> env_restored s'
         \<and> Status Success ''Configuration restored from backup'' \<in> set (tty s')"
  using assms
  by (auto simp: restore_env_from_backup_def Let_def seq_Inr input_Inr print_defs)

lemma launch_tty:
  assumes "launch s = Inr s'"
  shows "prefix (tty s) (tty s')" "home s' = home s"
    "last (tty s') = Launched \<or> last (tty s') = ManualSteps"
  using assms
  by (auto simp: launch_def try_except_Inr seq_Inr print_defs)

lemma call_editor_tty: "call_editor ed p s = Inr s' \<Longrightarrow> tty s' = tty s \<and> stdin s' = stdin s"
  by (auto simp: call_editor_def split: editor.splits option.splits sum.splits)

lemma recheck_tty:
  assumes "seq (check_env_credentials s3) (\<lambda>b.
             let s4 = s3\<lparr>env_has_credentials := b\<rparr> in
             if env_has_credentials s4
             then Inr (print_success m1 s4)
             else Inr (print_warning m2 s4)) = Inr s'"
  shows "prefix (tty s3) (tty s')" "stdin s' = stdin s3" 
  using assms by (auto simp: seq_Inr Let_def print_defs split: if_splits)

lemma guide_env_setup_tty:
  assumes "guide_env_setup s = Inr s'"
  shows "prefix (tty s @ [Header ''Configure Canvas API Credentials'']) (tty s')"
proof -
  define s1 where "s1 = print_header ''Configure Canvas API Credentials'' s"
  obtain pressed s2 where inp: "input PressEnterQ s1 = Inr (pressed, s2)"
    and body: "(case call_editor (nano s2) (install_dir @ [''.env'']) s2 of
             Inr s3 \<Rightarrow> seq (check_env_credentials s3) (\<lambda>b.
                let s4 = s3\<lparr>env_has_credentials := b\<rparr> in
                if env_has_credentials s4
                then Inr (print_success ''Credentials configured successfully!'' s4)
                else Inr (print_warning ''Some credentials may still need to be configured'' s4))
           | Inl e \<Rightarrow>
               if e = FileNotFoundError then
                 (case call_editor (vi s2) (install_dir @ [''.env'']) s2 of
                    Inr s3 \<Rightarrow> seq (check_env_credentials s3) (\<lambda>b.
                      let s4 = s3\<lparr>env_has_credentials := b\<rparr> in
                      if env_has_credentials s4
                      then Inr (print_success ''Credentials configured successfully!'' s4)
                      else Inr (print_warning ''Some credentials may still need to be configured'' s4))
                  | Inl e' \<Rightarrow>
                      if e' = FileNotFoundError
                      then Inr (print_error ''No text editor found. Please edit .env manually'' s2)
                      else Inl e')
               else Inl e) = Inr s'"
    using assms unfolding guide_env_setup_def Let_def s1_def [symmetric] seq_Inr by auto
  have p2: "prefix (tty s @ [Header ''Configure Canvas API Credentials'']) (tty s2)"
    using inp by (auto simp: input_Inr s1_def print_defs)
  have "prefix (tty s2) (tty s')"
  proof (cases "call_editor (nano s2) (install_dir @ [''.env'']) s2")
    case (Inr s3)
    then show ?thesis
      using body call_editor_tty [OF Inr] recheck_tty(1) [of s3 _ _ s'] by simp
  next
    case nano: (Inl e)
    show ?thesis
    proof (cases "call_editor (vi s2) (install_dir @ [''.env'']) s2")
      case (Inr s3)
      then show ?thesis
        using body nano call_editor_tty [OF Inr] recheck_tty(1) [of s3 _ _ s']
        by (simp split: if_splits)
    next
      case (Inl e')
      then show ?thesis
        using body nano by (auto simp: print_defs split: if_splits)
    qed
  qed
  then show ?thesis using p2 by (rule prefix_order.trans [rotated])
qed

section \<open>Answers to the prompts\<close>

lemma backup_existing_tty:
  assumes "backup_existing s = Inr (bd, s')"
  shows "Status Info (''Creating backup at '' @ backup_name s) \<in> set (tty s')"
  using assms by (auto simp: backup_existing_cases split: sum.splits)

lemma check_existing_installation_yes:
  assumes "path_exists (home s) install_dir" "stdin s = Line r # rest" "lower r = ''y''"
    and "check_existing_installation s = Inr (ok, s')"
  shows "Status Info (''Creating backup at '' @ backup_name s) \<in> set (tty s')"
proof -
  let ?s3 = "after_backup_question s rest"
  have name: "backup_name ?s3 = backup_name s"
    by (simp add: backup_name_def after_backup_question_def)
  obtain bd s4 where bk: "backup_existing ?s3 = Inr (bd, s4)"
    and rest: "(if bd \<noteq> None
                then seq (restore_env_from_backup s4) (\<lambda>(restored, s5). Inr (True, s5))
                else Inr (True, s4)) = Inr (ok, s')"
    using assms by (auto simp: check_existing_installation_answered seq_Inr)
  have m: "Status Info (''Creating backup at '' @ backup_name s) \<in> set (tty s4)"
    using backup_existing_tty [OF bk] by (simp add: name)
  show ?thesis
  proof (cases "bd = None")
    case True
    then show ?thesis using rest m by simp
  next
    case False
    then obtain x where "restore_env_from_backup s4 = Inr (x, s')"
      using rest by (auto simp: seq_Inr)
    then have "prefix (tty s4) (tty s')" by (rule restore_env_from_backup_tty)
    then show ?thesis using m set_mono_prefix by blast
  qed
qed

lemma offer_configuration_no:
  assumes "stdin s = Line r # rest" "lower r \<noteq> ''y''"
  shows "offer_configuration s =
           Inr (True, s\<lparr>tty := tty s @ [Status Warning ''API credentials need to be configured'',
                                         Asked ConfigureQ, ManualSteps],
                        stdin := rest\<rparr>)"
  using assms by (simp add: offer_configuration_def Let_def seq_def input_def print_defs)

lemma offer_configuration_yes:
  assumes "stdin s = Line r # rest" "lower r = ''y''"
    and "offer_configuration s = Inr (ok, s')"
  shows "Header ''Configure Canvas API Credentials'' \<in> set (tty s')"
proof -
  let ?s2 = "s\<lparr>tty := tty s @ [Status Warning ''API credentials need to be configured'',
                                 Asked ConfigureQ], stdin := rest\<rparr>"
  obtain s3 where g: "guide_env_setup ?s2 = Inr s3"
    and fin: "(if env_has_credentials s3 then seq (launch s3) (\<lambda>s4. Inr (True, s4))
               else Inr (True, show_manual_next_steps s3)) = Inr (ok, s')"
    using assms
    by (auto simp: offer_configuration_def Let_def seq_Inr input_Inr print_defs)
  have h: "Header ''Configure Canvas API Credentials'' \<in> set (tty s3)"
    using guide_env_setup_tty [OF g] set_mono_prefix by fastforce
  show ?thesis
  proof (cases "env_has_credentials s3")
    case True
    then obtain s4 where "launch s3 = Inr s4" "s' = s4"
      using fin by (auto simp: seq_Inr)
    then show ?thesis using launch_tty(1) [of s3 s4] h set_mono_prefix by blast
  next
    case False
    then show ?thesis using fin h by (auto simp: print_defs)
  qed
qed

lemmas step_defs =
  check_existing_installation_def backup_existing_def restore_env_from_backup_def
  check_env_credentials_def install_dependencies_def create_basic_env_def
  setup_environment_def create_alias_def call_editor_def guide_env_setup_def launch_def
  offer_configuration_def input_def check_python_version_def version_below_def
  latest_backup_def glob_def backup_pattern_def
  seq_def try_except_def Let_def

lemmas fs_defs =
  path_exists_def is_dir_def read_text_def write_text_def append_text_def mkdir_p_def
  copy2_def shutil_move_def chdir_def install_dir_def install_name_def

lemma demo_backup_accepted:
  "\<exists>s'. check_existing_installation
           (host\<lparr>home := installed (File True filled_text), stdin := [Line ''Y'', Line ''no'']\<rparr>)
         = Inr (True, s')"
  by (simp add: step_defs fs_defs print_defs host_def installed_def lower_is_y)

lemma demo_configure_accepted:
  "\<exists>s'. offer_configuration (host\<lparr>stdin := [Line ''y'', Line '''']\<rparr>) = Inr (True, s')"
  by (simp add: step_defs fs_defs print_defs host_def lower_is_y)

section \<open>The orchestrator\<close>

lemma setup_environment_Inr: "setup_environment s = Inr (ok, s') \<Longrightarrow> ok"
  by (auto simp: setup_environment_def Let_def seq_Inr split: if_splits)

lemma offer_configuration_Inr:
  assumes "offer_configuration s = Inr (ok, s')"
  shows "ok \<and> (last (tty s') = Launched \<or> last (tty s') = ManualSteps)"
proof -
  obtain r s2 where inp: "input ConfigureQ (print_warning ''API credentials need to be configured'' s) = Inr (r, s2)"
    and body: "(if lower r = ''y'' then
          seq (guide_env_setup s2) (\<lambda>s3.
            if env_has_credentials s3
            then seq (launch s3) (\<lambda>s4. Inr (True, s4))
            else Inr (True, show_manual_next_steps s3))
        else Inr (True, show_manual_next_steps s2)) = Inr (ok, s')"
    using assms unfolding offer_configuration_def Let_def seq_Inr by auto
  show ?thesis
  proof (cases "lower r = ''y''")
    case False
    then show ?thesis using body by (auto simp: print_defs)
  next
    case True
    then obtain s3 where g: "guide_env_setup s2 = Inr s3"
      and fin: "(if env_has_credentials s3 then seq (launch s3) (\<lambda>s4. Inr (True, s4))
                 else Inr (True, show_manual_next_steps s3)) = Inr (ok, s')"
      using body by (auto simp: seq_Inr)
    show ?thesis
    proof (cases "env_has_credentials s3")
      case True
      then show ?thesis using fin launch_tty(3) [of s3 s'] by (auto simp: seq_Inr)
    next
      case False
      then show ?thesis using fin by (auto simp: print_defs)
    qed
  qed
qed

lemma run_version_below:
  "version_below (version_info s) (3, 7) \<Longrightarrow> \<exists>s'. run s = Inr (False, s')"
  by (simp add: run_def Let_def check_python_version_def print_defs)

lemma run_tail:
  assumes "run s = Inr (ok, s')" "\<not> version_below (version_info s) (3, 7)"
  shows "\<exists>s10. (if env_has_credentials s10
           then seq (launch (print_success ''StitchKit is ready to use!'' s10)) (\<lambda>s11. Inr (True, s11))
           else offer_configuration s10) = Inr (ok, s')"
proof -
  define s2 where
    "s2 = (if ''--verbose'' \<in> set (argv (print_header ''StitchKit Python Installer'' s))
           then (print_header ''StitchKit Python Installer'' s)\<lparr>verbose := True\<rparr>
           else print_header ''StitchKit Python Installer'' s)"
  have "version_info s2 = version_info s"
    by (simp add: s2_def print_defs)
  then have v: "check_python_version s2 = (True, print_success ''Python detected'' s2)"
    using assms(2) by (simp add: check_python_version_def)
  show ?thesis
    using assms(1) unfolding run_def Let_def s2_def [symmetric]
    apply (simp only: v prod.case)
    apply (simp add: seq_Inr)
    apply (elim exE conjE)
    subgoal for existing s4 s5 deps_ok s6 env_ok s8
      apply (frule setup_environment_Inr)
      apply (simp add: seq_Inr)
      apply (elim exE conjE)
      subgoal for s9 s10
        apply (rule exI [of _ s10])
        apply (cases "env_has_credentials s10")
         apply (simp_all add: seq_Inr)
        done
      done
    done
qed


lemma run_Inr:
  assumes "run s = Inr (ok, s')"
  shows "(version_below (version_info s) (3, 7) \<and> \<not> ok)
       \<or> (\<not> version_below (version_info s) (3, 7) \<and> ok
          \<and> (last (tty s') = Launched \<or> last (tty s') = ManualSteps))"
proof (cases "version_below (version_info s) (3, 7)")
  case True
  then show ?thesis using assms run_version_below [OF True] by auto
next
  case False
  obtain s10 where
    fin: "(if env_has_credentials s10
           then seq (launch (print_success ''StitchKit is ready to use!'' s10)) (\<lambda>s11. Inr (True, s11))
           else offer_configuration s10) = Inr (ok, s')"
    using run_tail [OF assms False] by blast
  show ?thesis
  proof (cases "env_has_credentials s10")
    case True
    then show ?thesis
      using fin False launch_tty(3) [of "print_success ''StitchKit is ready to use!'' s10" s']
      by (auto simp: seq_Inr)
  next
    case no: False
    then show ?thesis using fin False offer_configuration_Inr [of s10 ok s'] by simp
  qed
qed

lemma version_info_new_installer [simp]: "version_info (new_installer s) = version_info s"
  by (simp add: new_installer_def)

lemma check_filled:
  "lookup (home s) [''StitchKit'', ''.env''] = Some (File True filled_text) \<Longrightarrow>
     check_env_credentials s = Inr True"
proof -
  assume "lookup (home s) [''StitchKit'', ''.env''] = Some (File True filled_text)"
  then have r: "read_text (home s) env_file = Inr filled_text"
    by (simp add: read_text_def env_file_path install_name_def del: lookup.simps)
  have "sublist ''CANVAS_API_KEY='' filled_text
        \<and> \<not> sublist ''your_canvas_api_key_here'' filled_text
        \<and> sublist ''HONORLOCK_CONSUMER_KEY='' filled_text
        \<and> \<not> sublist ''your_honorlock_consumer_key_here'' filled_text
        \<and> sublist ''HONORLOCK_SHARED_SECRET='' filled_text
        \<and> \<not> sublist ''your_honorlock_shared_secret_here'' filled_text"
    unfolding filled_text_def by code_simp
  then show ?thesis
    by (simp add: check_env_credentials_readable [OF r])
qed

lemma check_custom:
  "lookup (home s) [''StitchKit'', ''.env''] = Some (File True ''MY_OWN_SETTING=1'') \<Longrightarrow>
     check_env_credentials s = Inr False"
proof -
  assume "lookup (home s) [''StitchKit'', ''.env''] = Some (File True ''MY_OWN_SETTING=1'')"
  then have r: "read_text (home s) env_file = Inr ''MY_OWN_SETTING=1''"
    by (simp add: read_text_def env_file_path install_name_def del: lookup.simps)
  have "\<not> sublist ''CANVAS_API_KEY='' ''MY_OWN_SETTING=1''"
    by code_simp
  then show ?thesis
    by (simp add: check_env_credentials_readable [OF r])
qed

lemmas run_defs =
  run_def new_installer_def check_existing_installation_def backup_existing_def
  restore_env_from_backup_def install_dependencies_def create_basic_env_def
  setup_environment_def create_alias_def call_editor_def guide_env_setup_def launch_def
  offer_configuration_def input_def check_python_version_def version_below_def
  latest_backup_def glob_def backup_pattern_def alias_line_def
  seq_def try_except_def Let_def

lemma run_launched:
  "\<exists>s'. run (new_installer (host\<lparr>home := installed (File True filled_text), stdin := [Line ''n'']\<rparr>))
          = Inr (True, s') \<and> last (tty s') = Launched"
  by (simp add: run_defs fs_defs print_defs host_def installed_def lower_is_y check_filled)

lemma run_manual:
  "\<exists>s'. run (new_installer (host\<lparr>home := installed (File True ''MY_OWN_SETTING=1''),
                                   stdin := [Line ''n'', Line ''n'']\<rparr>))
          = Inr (True, s') \<and> last (tty s') = ManualSteps"
  by (simp add: run_defs fs_defs print_defs host_def installed_def lower_is_y check_custom)

lemma run_interrupted:
  "run (new_installer (host\<lparr>home := installed (File True filled_text), stdin := [CtrlC]\<rparr>))
     = Inl KeyboardInterrupt"
  by (simp add: run_defs fs_defs print_defs host_def installed_def lower_is_y check_filled)

lemma run_unhandled:
  "run (new_installer (host\<lparr>home := [(''StitchKit'', File True [])], stdin := [Line ''n'']\<rparr>))
     = Inl NotADirectoryError"
  by (simp add: run_defs fs_defs print_defs host_def installed_def lower_is_y check_filled)

section \<open>The template is not complete\<close>

lemma sublist_in_lines:
  assumes "l \<in> set ls" "sublist w l"
  shows "sublist w (concat (map (\<lambda>l. l @ [CHR 0x0A]) ls))"
proof -
  obtain as bs where ls: "ls = as @ l # bs"
    using assms(1) by (meson split_list)
  obtain p q where l: "l = p @ w @ q"
    using assms(2) by (auto simp: sublist_def)
  have "concat (map (\<lambda>l. l @ [CHR 0x0A]) ls)
          = (concat (map (\<lambda>l. l @ [CHR 0x0A]) as) @ p) @ w
            @ (q @ [CHR 0x0A] @ concat (map (\<lambda>l. l @ [CHR 0x0A]) bs))"
    by (simp add: ls l)
  then show ?thesis
    unfolding sublist_def by blast
qed

lemma template_line: "''CANVAS_API_KEY=your_canvas_api_key_here'' \<in> set env_lines"
  by (simp add: env_lines_def)

lemma template_has_placeholder: "sublist ''your_canvas_api_key_here'' env_content"
proof -
  have "sublist ''your_canvas_api_key_here'' (''CANVAS_API_KEY='' @ ''your_canvas_api_key_here'' @ [])"
    by (rule sublist_appendI)
  then have "sublist ''your_canvas_api_key_here'' ''CANVAS_API_KEY=your_canvas_api_key_here''"
    by simp
  then show ?thesis
    unfolding env_content_def using template_line by (rule sublist_in_lines [rotated])
qed

section \<open>Steps that leave the installation alone\<close>

lemma is_Exception_iff: "is_Exception e = (e \<noteq> KeyboardInterrupt)"
  by (cases e) simp_all

lemma only_terminal_fields:
  assumes "only_terminal s s'"
  shows "home s' = home s" "stdin s' = stdin s" "env_restored s' = env_restored s"
    "env_has_credentials s' = env_has_credentials s" "version_info s' = version_info s"
    "argv s' = argv s" "shell_var s' = shell_var s" "now s' = now s"
    "pip_upgrade s' = pip_upgrade s" "pip_install s' = pip_install s"
    "nano s' = nano s" "vi s' = vi s" "target_app s' = target_app s"
    "prefix (tty s) (tty s')"
proof -
  have eq: "s'\<lparr>tty := tty s\<rparr> = s" and p: "prefix (tty s) (tty s')"
    using assms by (simp_all add: only_terminal_def)
  show "prefix (tty s) (tty s')" by (rule p)
  have "home (s'\<lparr>tty := tty s\<rparr>) = home s" by (simp only: eq)
  then show "home s' = home s" by simp
  have "stdin (s'\<lparr>tty := tty s\<rparr>) = stdin s" by (simp only: eq)
  then show "stdin s' = stdin s" by simp
  have "env_restored (s'\<lparr>tty := tty s\<rparr>) = env_restored s" by (simp only: eq)
  then show "env_restored s' = env_restored s" by simp
  have "env_has_credentials (s'\<lparr>tty := tty s\<rparr>) = env_has_credentials s" by (simp only: eq)
  then show "env_has_credentials s' = env_has_credentials s" by simp
  have "version_info (s'\<lparr>tty := tty s\<rparr>) = version_info s" by (simp only: eq)
  then show "version_info s' = version_info s" by simp
  have "argv (s'\<lparr>tty := tty s\<rparr>) = argv s" by (simp only: eq)
  then show "argv s' = argv s" by simp
  have "shell_var (s'\<lparr>tty := tty s\<rparr>) = shell_var s" by (simp only: eq)
  then show "shell_var s' = shell_var s" by simp
  have "now (s'\<lparr>tty := tty s\<rparr>) = now s" by (simp only: eq)
  then show "now s' = now s" by simp
  have "pip_upgrade (s'\<lparr>tty := tty s\<rparr>) = pip_upgrade s" by (simp only: eq)
  then show "pip_upgrade s' = pip_upgrade s" by simp
  have "pip_install (s'\<lparr>tty := tty s\<rparr>) = pip_install s" by (simp only: eq)
  then show "pip_install s' = pip_install s" by simp
  have "nano (s'\<lparr>tty := tty s\<rparr>) = nano s" by (simp only: eq)
  then show "nano s' = nano s" by simp
  have "vi (s'\<lparr>tty := tty s\<rparr>) = vi s" by (simp only: eq)
  then show "vi s' = vi s" by simp
  have "target_app (s'\<lparr>tty := tty s\<rparr>) = target_app s" by (simp only: eq)
  then show "target_app s' = target_app s" by simp
qed

lemma only_terminal_append: "only_terminal s (s\<lparr>tty := tty s @ evs\<rparr>)"
  by (simp add: only_terminal_def)

lemma only_terminal_refl: "only_terminal s s"
  by (simp add: only_terminal_def)

lemma install_dependencies_quiet:
  assumes "pip_upgrade s \<noteq> Inl KeyboardInterrupt" "pip_install s \<noteq> Inl KeyboardInterrupt"
  shows "\<exists>ok s'. install_dependencies s = Inr (ok, s') \<and> only_terminal s s'"
proof (cases "path_exists (home s) (install_dir @ [''requirements.txt''])")
  case False
  then show ?thesis
    by (auto simp: install_dependencies_def Let_def print_defs only_terminal_append)
next
  case True
  show ?thesis
  proof (cases "pip_upgrade s")
    case (Inl e)
    then show ?thesis
      using True assms(1)
      by (auto simp: install_dependencies_def Let_def print_defs seq_def try_except_def
          is_Exception_iff only_terminal_append)
  next
    case up: (Inr u)
    show ?thesis
    proof (cases "pip_install s")
      case (Inl e)
      then show ?thesis
        using True up assms(2)
        by (auto simp: install_dependencies_def Let_def print_defs seq_def try_except_def
            is_Exception_iff only_terminal_append)
    next
      case (Inr code)
      then show ?thesis
        using True up
        by (auto simp: install_dependencies_def Let_def print_defs seq_def try_except_def
            only_terminal_append)
    qed
  qed
qed

lemma write_text_Exception: "write_text es p c = Inl e \<Longrightarrow> is_Exception e"
  by (auto simp: write_text_def split: option.splits node.splits)

lemma write_text_single: "write_text es [x] c = Inr es' \<Longrightarrow> \<exists>v. es' = AList.update x v es"
  by (auto simp: write_text_def split: option.splits node.splits)

lemma append_text_Exception: "append_text es p c = Inl e \<Longrightarrow> is_Exception e"
  by (auto simp: append_text_def dest: write_text_Exception split: option.splits node.splits)

lemma append_text_single: "append_text es [x] c = Inr es' \<Longrightarrow> \<exists>v. es' = AList.update x v es"
  by (auto simp: append_text_def dest: write_text_single split: option.splits node.splits)

lemma lookup_update_other: "x \<noteq> y \<Longrightarrow> lookup (AList.update x v es) (y # p) = lookup es (y # p)"
  by (simp add: update_conv')

lemma create_alias_frame:
  "\<exists>s'. create_alias s = Inr s'
        \<and> s'\<lparr>tty := tty s, home := home s\<rparr> = s \<and> prefix (tty s) (tty s')
        \<and> (\<forall>p. lookup (home s') (install_name # p) = lookup (home s) (install_name # p))"
proof -
  define shell where "shell = (case shell_var s of None \<Rightarrow> ''/bin/bash'' | Some v \<Rightarrow> v)"
  define rc_file where
    "rc_file = (if str_in ''zsh'' shell then ''.zshrc''
                else if str_in ''bash'' shell then ''.bashrc'' else ''.profile'')"
  define present where
    "present = (if path_exists (home s) [rc_file]
                then seq (read_text (home s) [rc_file]) (\<lambda>text. Inr (str_in ''alias stitchkit='' text))
                else Inr False)"
  define lines where
    "lines = [CHR 0x0A] @ ''# StitchKit alias'' @ [CHR 0x0A] @ alias_line @ [CHR 0x0A]"
  have rc: "rc_file \<noteq> install_name"
    by (simp add: rc_file_def install_name_def)
  have unfold: "create_alias s =
      try_except
        (seq present (\<lambda>present.
           if present then Inr (print_info ''Alias stitchkit already exists'' s)
           else seq (append_text (home s) [rc_file] lines) (\<lambda>es.
                  Inr (print_info ''Note: Run source or restart terminal to use alias''
                        (print_success (''Created stitchkit alias in '' @ rc_file)
                          (s\<lparr>home := es\<rparr>))))))
        (\<lambda>e. Inr (print_warning ''Could not create alias'' s))"
    unfolding create_alias_def Let_def shell_def rc_file_def present_def lines_def
    by (rule refl)
  show ?thesis
  proof (cases present)
    case (Inl e)
    then have "is_Exception e"
      by (auto simp: present_def seq_def dest: read_text_Exception split: if_splits sum.splits)
    then show ?thesis
      using Inl by (simp add: unfold seq_def try_except_def print_defs)
  next
    case (Inr b)
    show ?thesis
    proof (cases b)
      case True
      then show ?thesis
        using Inr by (simp add: unfold seq_def try_except_def print_defs)
    next
      case False
      show ?thesis
      proof (cases "append_text (home s) [rc_file] lines")
        case (Inl e)
        then show ?thesis
          using Inr False append_text_Exception [OF Inl]
          by (simp add: unfold seq_def try_except_def print_defs)
      next
        case app: (Inr es)
        obtain v where es: "es = AList.update rc_file v (home s)"
          using append_text_single [OF app] by blast
        have "\<forall>p. lookup es (install_name # p) = lookup (home s) (install_name # p)"
          using rc by (simp add: es lookup_update_other del: lookup.simps)
        then show ?thesis
          using Inr False app
          by (simp add: unfold seq_def try_except_def print_defs del: lookup.simps)
      qed
    qed
  qed
qed

lemma run_launch_path:
  assumes v: "\<not> version_below (version_info s) (3, 7)"
    and 1: "check_existing_installation (after_version_check s) = Inr (ex, s4)"
    and 2: "path_exists (home s4) install_dir"
    and 3: "install_dependencies s4 = Inr (ok, s6)"
    and 4: "setup_environment
              (if \<not> ok
               then print_warning ''Some dependencies may not have installed correctly'' s6
               else s6) = Inr (True, s8)"
    and 5: "create_alias s8 = Inr s9"
    and 6: "\<not> env_has_credentials s9" "check_env_credentials s9 = Inr True"
    and 7: "launch (print_success ''StitchKit is ready to use!'' (s9\<lparr>env_has_credentials := True\<rparr>))
              = Inr s11"
  shows "run s = Inr (True, s11)"
proof -
  define s2 where
    "s2 = (if ''--verbose'' \<in> set (argv (print_header ''StitchKit Python Installer'' s))
           then (print_header ''StitchKit Python Installer'' s)\<lparr>verbose := True\<rparr>
           else print_header ''StitchKit Python Installer'' s)"
  have "version_info s2 = version_info s"
    by (simp add: s2_def print_defs)
  then have c: "check_python_version s2 = (True, after_version_check s)"
    using v by (simp add: check_python_version_def after_version_check_def s2_def)
  show ?thesis
    unfolding run_def Let_def s2_def [symmetric]
    apply (simp only: c prod.case)
    apply (simp add: seq_def 1 2 3 4 5 6 7)
    done
qed

lemma after_version_check_fields:
  "home (after_version_check s) = home s" "stdin (after_version_check s) = stdin s"
  "env_restored (after_version_check s) = env_restored s"
  "env_has_credentials (after_version_check s) = env_has_credentials s"
  "version_info (after_version_check s) = version_info s"
  "pip_upgrade (after_version_check s) = pip_upgrade s"
  "pip_install (after_version_check s) = pip_install s"
  "target_app (after_version_check s) = target_app s"
  "prefix (tty s) (tty (after_version_check s))"
  by (simp_all add: after_version_check_def print_defs)

lemma after_backup_question_fields:
  "home (after_backup_question s rest) = home s" "stdin (after_backup_question s rest) = rest"
  "env_restored (after_backup_question s rest) = env_restored s"
  "env_has_credentials (after_backup_question s rest) = env_has_credentials s"
  "version_info (after_backup_question s rest) = version_info s"
  "pip_upgrade (after_backup_question s rest) = pip_upgrade s"
  "pip_install (after_backup_question s rest) = pip_install s"
  "target_app (after_backup_question s rest) = target_app s"
  "prefix (tty s) (tty (after_backup_question s rest))"
  "Asked BackupQ \<in> set (tty (after_backup_question s rest))"
  by (simp_all add: after_backup_question_def)

lemma read_env_file_dir:
  assumes "read_text es env_file = Inr c"
  shows "path_exists es install_dir" "chdir es install_dir = Inr ()" "path_exists es env_file"
  using assms
  by (auto simp: read_text_def env_file_path lookup_two lookup_single path_exists_def chdir_def
      install_dir_def simp del: lookup.simps split: option.splits node.splits if_splits)

lemma read_text_same_lookup:
  "lookup es' p = lookup es p \<Longrightarrow> read_text es' p = read_text es p"
  by (simp add: read_text_def)

lemma changed_terminal_and_home_fields:
  assumes "s'\<lparr>tty := t, home := h\<rparr> = s"
  shows "stdin s' = stdin s" "env_restored s' = env_restored s"
    "env_has_credentials s' = env_has_credentials s" "version_info s' = version_info s"
    "pip_upgrade s' = pip_upgrade s" "pip_install s' = pip_install s"
    "target_app s' = target_app s"
proof -
  have "stdin (s'\<lparr>tty := t, home := h\<rparr>) = stdin s" by (simp only: assms)
  then show "stdin s' = stdin s" by simp
  have "env_restored (s'\<lparr>tty := t, home := h\<rparr>) = env_restored s" by (simp only: assms)
  then show "env_restored s' = env_restored s" by simp
  have "env_has_credentials (s'\<lparr>tty := t, home := h\<rparr>) = env_has_credentials s"
    by (simp only: assms)
  then show "env_has_credentials s' = env_has_credentials s" by simp
  have "version_info (s'\<lparr>tty := t, home := h\<rparr>) = version_info s" by (simp only: assms)
  then show "version_info s' = version_info s" by simp
  have "pip_upgrade (s'\<lparr>tty := t, home := h\<rparr>) = pip_upgrade s" by (simp only: assms)
  then show "pip_upgrade s' = pip_upgrade s" by simp
  have "pip_install (s'\<lparr>tty := t, home := h\<rparr>) = pip_install s" by (simp only: assms)
  then show "pip_install s' = pip_install s" by simp
  have "target_app (s'\<lparr>tty := t, home := h\<rparr>) = target_app s" by (simp only: assms)
  then show "target_app s' = target_app s" by simp
qed

lemma run_declined_launches:
  assumes c: "read_text (home s) env_file = Inr c" "isComplete c"
    and v: "\<not> version_below (version_info s) (3, 7)"
    and inp: "stdin s = Line r # rest" "lower r \<noteq> ''y''"
    and pip: "pip_upgrade s \<noteq> Inl KeyboardInterrupt" "pip_install s \<noteq> Inl KeyboardInterrupt"
    and app: "target_app s = Inr code"
  shows "\<exists>s1. run (new_installer s) = Inr (True, s1)
            \<and> Asked BackupQ \<in> set (tty s1) \<and> last (tty s1) = Launched
            \<and> read_text (home s1) env_file = Inr c \<and> stdin s1 = rest
            \<and> version_info s1 = version_info s
            \<and> pip_upgrade s1 = pip_upgrade s \<and> pip_install s1 = pip_install s
            \<and> target_app s1 = target_app s"
proof -
  define n where "n = new_installer s"
  define s3 where "s3 = after_version_check n"
  define s4 where "s4 = after_backup_question s3 rest"
  have n: "home n = home s" "stdin n = stdin s" "\<not> env_restored n" "\<not> env_has_credentials n"
    "version_info n = version_info s" "pip_upgrade n = pip_upgrade s"
    "pip_install n = pip_install s" "target_app n = target_app s"
    by (simp_all add: n_def new_installer_def)
  have s3: "home s3 = home s" "stdin s3 = Line r # rest"
    by (simp_all add: s3_def after_version_check_fields n inp)
  have s4: "home s4 = home s" "stdin s4 = rest" "\<not> env_restored s4" "\<not> env_has_credentials s4"
    "version_info s4 = version_info s" "pip_upgrade s4 = pip_upgrade s"
    "pip_install s4 = pip_install s" "target_app s4 = target_app s"
    "Asked BackupQ \<in> set (tty s4)"
    by (simp_all add: s4_def s3_def after_backup_question_fields after_version_check_fields n)
  have dir: "path_exists (home s) install_dir" "chdir (home s) install_dir = Inr ()"
    "path_exists (home s) env_file"
    using read_env_file_dir [OF c(1)] by blast+
  have 1: "check_existing_installation (after_version_check n) = Inr (True, s4)"
    using check_existing_installation_answered [of s3 r rest] dir(1) s3 inp(2)
    by (simp add: s4_def s3_def)
  obtain ok s6 where 3: "install_dependencies s4 = Inr (ok, s6)" and q6: "only_terminal s4 s6"
    using install_dependencies_quiet [of s4] pip s4 by auto
  define s7 where
    "s7 = (if \<not> ok
           then print_warning ''Some dependencies may not have installed correctly'' s6
           else s6)"
  have q7: "only_terminal s6 s7"
    by (simp add: s7_def print_defs only_terminal_append only_terminal_refl)
  note f6 = only_terminal_fields [OF q6]
  note f7 = only_terminal_fields [OF q7]
  have s7: "home s7 = home s" "stdin s7 = rest" "\<not> env_restored s7" "\<not> env_has_credentials s7"
    "version_info s7 = version_info s" "pip_upgrade s7 = pip_upgrade s"
    "pip_install s7 = pip_install s" "target_app s7 = target_app s"
    using f6 f7 s4 by simp_all
  have t7: "Asked BackupQ \<in> set (tty s7)"
    using s4(9) f6(14) f7(14) set_mono_prefix by blast
  have 4: "setup_environment s7 = Inr (True, s7)"
    using s7 dir(3) by (simp add: setup_environment_def env_file_def [symmetric] seq_def)
  obtain s9 where 5: "create_alias s7 = Inr s9"
    and e9: "s9\<lparr>tty := tty s7, home := home s7\<rparr> = s7" and p9: "prefix (tty s7) (tty s9)"
    and l9: "\<forall>p. lookup (home s9) (install_name # p) = lookup (home s7) (install_name # p)"
    using create_alias_frame [of s7] by blast
  note f9 = changed_terminal_and_home_fields [OF e9]
  have r9: "read_text (home s9) env_file = Inr c"
    using l9 c(1) s7(1) read_text_same_lookup [of "home s9" env_file "home s7"]
    by (simp add: env_file_path del: lookup.simps)
  have 6: "\<not> env_has_credentials s9" using f9 s7 by simp
  have c9: "check_env_credentials s9 = Inr True"
    using check_env_credentials_readable [OF r9] c(2)
    by (simp add: isComplete_def required_fields_def)
  define s10 where "s10 = print_success ''StitchKit is ready to use!'' (s9\<lparr>env_has_credentials := True\<rparr>)"
  define s11 where "s11 = s10\<lparr>tty := tty s10 @ [Launched]\<rparr>"
  have s10: "home s10 = home s9" "target_app s10 = Inr code" "stdin s10 = rest"
    "prefix (tty s9) (tty s10)" "version_info s10 = version_info s"
    "pip_upgrade s10 = pip_upgrade s" "pip_install s10 = pip_install s"
    using f9 s7 app by (simp_all add: s10_def print_defs)
  have 7: "launch s10 = Inr s11"
    using read_env_file_dir(2) [OF r9] s10(1,2)
    by (simp add: launch_def seq_def try_except_def s11_def)
  have run: "run n = Inr (True, s11)"
    using run_launch_path [of n True s4 ok s6 s7 s9 s11] v n(5) 1 dir(1) s4(1) 3 4 5 6 c9 7
    by (simp add: s7_def s10_def)
  have "Asked BackupQ \<in> set (tty s10)"
    using t7 p9 s10(4) set_mono_prefix by blast
  then have t11: "Asked BackupQ \<in> set (tty s11)" "last (tty s11) = Launched"
    by (simp_all add: s11_def)
  have "read_text (home s11) env_file = Inr c" "stdin s11 = rest"
    "version_info s11 = version_info s" "pip_upgrade s11 = pip_upgrade s"
    "pip_install s11 = pip_install s" "target_app s11 = target_app s"
    using r9 s10 app by (simp_all add: s11_def)
  then show ?thesis
    using run t11 unfolding n_def by blast
qed

lemma check_template:
  "lookup (home s) [''StitchKit'', ''.env''] = Some (File True env_content) \<Longrightarrow>
     check_env_credentials s = Inr False"
proof -
  assume "lookup (home s) [''StitchKit'', ''.env''] = Some (File True env_content)"
  then have r: "read_text (home s) env_file = Inr env_content"
    by (simp add: read_text_def env_file_path install_name_def del: lookup.simps)
  show ?thesis
    by (simp add: check_env_credentials_readable [OF r] template_has_placeholder)
qed

lemma env_content_not_filled: "env_content \<noteq> filled_text"
proof
  assume "env_content = filled_text"
  then have "sublist ''your_canvas_api_key_here'' filled_text"
    using template_has_placeholder by simp
  moreover have "\<not> sublist ''your_canvas_api_key_here'' filled_text"
    unfolding filled_text_def by code_simp
  ultimately show False by simp
qed

lemma run_backup_accepted:
  "\<exists>s1. run (new_installer (host\<lparr>home := installed (File True filled_text),
                                   stdin := [Line ''y'', Line ''n'', Line ''n'']\<rparr>))
          = Inr (True, s1)
        \<and> Asked BackupQ \<in> set (tty s1) \<and> last (tty s1) = ManualSteps
        \<and> read_text (home s1) env_file = Inr env_content"
  by (simp add: run_defs fs_defs print_defs host_def installed_def lower_is_y check_template
      env_file_def)

lemma run_backup_declined:
  "\<exists>s1. run (new_installer (host\<lparr>home := installed (File True filled_text), stdin := [Line ''n'']\<rparr>))
          = Inr (True, s1)
        \<and> Asked BackupQ \<in> set (tty s1)"
  by (simp add: run_defs fs_defs print_defs host_def installed_def lower_is_y check_filled)

section \<open>A regular file above the backups\<close>

lemma shadowed_backup:
  "backup_existing shadowed = Inr (Some ''StitchKit.backup-20240101-120000'', shadowed_after_backup)"
  by (simp add: backup_existing_def shutil_move_def seq_def try_except_def Let_def print_defs
      shadowed_def shadowed_after_backup_def host_def install_name_def)

lemma shadowed_greatest_directory:
  "greatest_backup_directory (home shadowed_after_backup) = Some ''StitchKit.backup-20240101-120000''"
  by (simp add: greatest_backup_directory_def shadowed_after_backup_def backup_pattern_def
      is_dir_def Let_def)

lemma shadowed_latest:
  "latest_backup (home shadowed_after_backup) = Some ''StitchKit.backup-9.tar.gz''"
  by (simp add: latest_backup_def glob_def shadowed_after_backup_def backup_pattern_def Let_def)

lemma shadowed_no_env:
  "\<not> path_exists (home shadowed_after_backup) [''StitchKit.backup-9.tar.gz'', ''.env'']"
  by (simp add: path_exists_def shadowed_after_backup_def)

lemma shadowed_read:
  "read_text (home shadowed_after_backup) [''StitchKit.backup-20240101-120000'', ''.env'']
     = Inr filled_text"
  by (simp add: read_text_def shadowed_after_backup_def)

lemma restore_env_from_backup_no_env:
  assumes "latest_backup (home s) = Some b" "\<not> path_exists (home s) [b, ''.env'']"
  shows "restore_env_from_backup s = Inr (False, s)"
  using assms by (simp add: restore_env_from_backup_def)

lemma restore_env_from_backup_unreadable:
  assumes absent: "map_of (home s) install_name = None"
    and latest: "latest_backup (home s) = Some b"
    and ex: "path_exists (home s) [b, ''.env'']"
    and input: "stdin s = Line r # rest" "lower r = ''y''"
    and unreadable: "read_text (home s) [b, ''.env''] = Inl e"
  shows "restore_env_from_backup s = Inl e"
proof -
  have ne: "b \<noteq> install_name" using latest_backup_not_install(1) [OF latest] .
  have "copy2 (AList.update install_name (Dir []) (home s)) [b, ''.env''] p = Inl e" for p
    using unreadable ne by (simp add: copy2_def read_text_other_entry)
  then show ?thesis
    using latest ex input absent
    by (simp add: restore_env_from_backup_def input_def seq_def Let_def mkdir_p_def print_defs)
qed

lemma check_env_credentials_under_searchable:
  "check_env_credentials_under [] (\<lambda>bytes. True) s = check_env_credentials s"
  by (simp add: check_env_credentials_under_def check_env_credentials_def exists_under_def
      read_text_under_def denied_def seq_def Let_def split: sum.splits)

lemma read_text_under_Exception:
  "read_text_under locked decodes es p = Inl e \<Longrightarrow> is_Exception e"
  by (auto simp: read_text_under_def dest: read_text_Exception split: if_splits sum.splits)

section \<open>Properties of the installer\<close>

text \<open>
  C1. For every configuration text, \<open>check_env_credentials\<close> on a machine whose
  configuration file reads as that text returns exactly the specification's
  \<open>isComplete\<close>: for each of the three required fields the text contains
  \<open>FIELD_NAME=\<close> and does not contain the field's placeholder, all three at once.
\<close>

theorem check_env_credentials_is_isComplete:
  "read_text (home s) env_file = Inr config_text \<Longrightarrow>
     check_env_credentials s = Inr (isComplete config_text)"
  by (simp add: check_env_credentials_readable isComplete_def required_fields_def)

theorem check_env_credentials_is_isComplete_witness:
  "read_text (home (host\<lparr>home := installed (File True filled_text)\<rparr>)) env_file = Inr filled_text
   \<and> check_env_credentials (host\<lparr>home := installed (File True filled_text)\<rparr>) = Inr True"
  using check_env_credentials_is_isComplete
          [of "host\<lparr>home := installed (File True filled_text)\<rparr>" filled_text]
  apply (simp add: read_installed)
  unfolding isComplete_def required_fields_def filled_text_def
  by code_simp

text \<open>
  C10. The check is substring matching on the whole text. (a) A text in which each
  required name is followed by \<open>=\<close> and a newline, and in which no placeholder occurs,
  is complete: an empty value counts as present. (b) A text in which a placeholder occurs
  anywhere is incomplete, whatever the assignments hold.
\<close>

theorem check_env_credentials_substring_matching:
  assumes "read_text (home s) env_file = Inr c"
  shows "(sublist (''CANVAS_API_KEY='' @ [CHR 0x0A]) c
          \<and> sublist (''HONORLOCK_CONSUMER_KEY='' @ [CHR 0x0A]) c
          \<and> sublist (''HONORLOCK_SHARED_SECRET='' @ [CHR 0x0A]) c
          \<and> \<not> sublist ''your_canvas_api_key_here'' c
          \<and> \<not> sublist ''your_honorlock_consumer_key_here'' c
          \<and> \<not> sublist ''your_honorlock_shared_secret_here'' c
          \<longrightarrow> check_env_credentials s = Inr True)
       \<and> (sublist ''your_canvas_api_key_here'' c
          \<or> sublist ''your_honorlock_consumer_key_here'' c
          \<or> sublist ''your_honorlock_shared_secret_here'' c
          \<longrightarrow> check_env_credentials s = Inr False)"
proof -
  have "sublist w c" if "sublist (w @ [CHR 0x0A]) c" for w
    using that by (auto simp: sublist_def)
  then show ?thesis
    by (auto simp: check_env_credentials_readable [OF assms])
qed

theorem check_env_credentials_substring_matching_witness:
  "check_env_credentials (host\<lparr>home := installed (File True empty_values_text)\<rparr>) = Inr True
   \<and> check_env_credentials (host\<lparr>home := installed (File True commented_placeholder_text)\<rparr>)
       = Inr False"
proof -
  have a: "sublist (''CANVAS_API_KEY='' @ [CHR 0x0A]) empty_values_text
          \<and> sublist (''HONORLOCK_CONSUMER_KEY='' @ [CHR 0x0A]) empty_values_text
          \<and> sublist (''HONORLOCK_SHARED_SECRET='' @ [CHR 0x0A]) empty_values_text
          \<and> \<not> sublist ''your_canvas_api_key_here'' empty_values_text
          \<and> \<not> sublist ''your_honorlock_consumer_key_here'' empty_values_text
          \<and> \<not> sublist ''your_honorlock_shared_secret_here'' empty_values_text"
    unfolding empty_values_text_def by code_simp
  have b: "sublist ''your_canvas_api_key_here'' commented_placeholder_text"
    unfolding commented_placeholder_text_def filled_text_def by code_simp
  show ?thesis
    using a b
      check_env_credentials_substring_matching
        [of "host\<lparr>home := installed (File True empty_values_text)\<rparr>" empty_values_text]
      check_env_credentials_substring_matching
        [of "host\<lparr>home := installed (File True commented_placeholder_text)\<rparr>"
            commented_placeholder_text]
    by (simp add: read_installed)
qed

text \<open>
  C4. The search at the head of \<open>restore_env_from_backup\<close> takes the entries of the
  home directory whose names match \<open>StitchKit.backup-*\<close>, sorts the names and takes the
  last: it finds nothing exactly when no name matches; what it finds is a matching name
  that no matching name exceeds; for three backups with timestamps \<open>t1 < t2 < t3\<close> it is
  the one of \<open>t3\<close>, in whatever order the directory lists them; and when it finds
  nothing, the restore step returns \<open>False\<close> and leaves the machine as it was: no
  restore is offered.
\<close>

theorem latest_backup_greatest:
  "(latest_backup es = None
      \<longleftrightarrow> (\<forall>name \<in> fst ` set es. \<not> prefix ''StitchKit.backup-'' name))
   \<and> (\<forall>b. latest_backup es = Some b \<longrightarrow>
          b \<in> fst ` set es \<and> prefix ''StitchKit.backup-'' b
          \<and> (\<forall>name \<in> fst ` set es. prefix ''StitchKit.backup-'' name \<longrightarrow> name \<le> b))
   \<and> (\<forall>t1 t2 t3. t1 < t2 \<and> t2 < t3
          \<and> {name \<in> fst ` set es. prefix ''StitchKit.backup-'' name}
              = {''StitchKit.backup-'' @ t1, ''StitchKit.backup-'' @ t2, ''StitchKit.backup-'' @ t3}
          \<longrightarrow> latest_backup es = Some (''StitchKit.backup-'' @ t3))
   \<and> (latest_backup (home s) = None \<longrightarrow> restore_env_from_backup s = Inr (False, s))"
proof -
  define M where "M = set (glob es backup_pattern)"
  define P where "P = ''StitchKit.backup-''"
  have M: "M = {name \<in> fst ` set es. prefix P name}"
    by (simp add: M_def P_def set_glob_backups)
  have fin: "finite M" by (simp add: M_def)
  have latest: "latest_backup es = (if M = {} then None else Some (Max M))"
    by (simp add: M_def latest_backup_Max)
  have 1: "latest_backup es = None \<longleftrightarrow> (\<forall>name \<in> fst ` set es. \<not> prefix P name)"
  proof -
    have "(M = {}) = (\<forall>name \<in> fst ` set es. \<not> prefix P name)"
      unfolding M by blast
    then show ?thesis by (simp add: latest)
  qed
  have 2: "b \<in> fst ` set es \<and> prefix P b \<and> (\<forall>name \<in> fst ` set es. prefix P name \<longrightarrow> name \<le> b)"
    if "latest_backup es = Some b" for b
  proof -
    have ne: "M \<noteq> {}" and b: "b = Max M"
      using that by (auto simp: latest split: if_splits)
    have "b \<in> M" using Max_in [OF fin ne] b by simp
    moreover have "\<forall>name \<in> M. name \<le> b" using fin b by simp
    ultimately show ?thesis unfolding M by blast
  qed
  have 3: "latest_backup es = Some (P @ t3)"
    if "t1 < t2 \<and> t2 < t3 \<and> {name \<in> fst ` set es. prefix P name} = {P @ t1, P @ t2, P @ t3}"
    for t1 t2 t3
  proof -
    have M3: "M = {P @ t1, P @ t2, P @ t3}" using that M by simp
    have le: "P @ t1 \<le> P @ t3" "P @ t2 \<le> P @ t3"
      using that by (auto simp: append_le_append)
    have "Max M = P @ t3"
    proof (rule Max_eqI [OF fin])
      show "P @ t3 \<in> M" by (simp add: M3)
      show "y \<le> P @ t3" if "y \<in> M" for y
        using that le unfolding M3 by blast
    qed
    moreover have "M \<noteq> {}" by (simp add: M3)
    ultimately show ?thesis by (simp add: latest)
  qed
  have 4: "restore_env_from_backup s = Inr (False, s)" if "latest_backup (home s) = None"
    using that by (simp add: restore_env_from_backup_def)
  show ?thesis
    using 1 2 3 4 unfolding P_def by blast
qed

theorem latest_backup_greatest_witness:
  "latest_backup three_backups = Some ''StitchKit.backup-20240301-000000''
   \<and> latest_backup (home host) = None
   \<and> restore_env_from_backup host = Inr (False, host)"
proof -
  have lt: "''20231231-235959'' < ''20240215-093000'' \<and> ''20240215-093000'' < ''20240301-000000''"
    by simp
  have none: "\<forall>name \<in> fst ` set (home host). \<not> prefix ''StitchKit.backup-'' name"
    by (simp add: host_def)
  have a: "latest_backup three_backups = Some (''StitchKit.backup-'' @ ''20240301-000000'')"
    using latest_backup_greatest [of three_backups host] lt names_three_backups by blast
  have b: "latest_backup (home host) = None \<and> restore_env_from_backup host = Inr (False, host)"
    using latest_backup_greatest [of "home host" host] none by blast
  show ?thesis using a b by simp
qed



text \<open>
  C6. \<open>setup_environment\<close> in the order of its branches. When the configuration was
  restored from a backup (the flag is set and the file is there), the machine is
  returned as it is. Otherwise, when no configuration file exists in the installation
  directory, the fixed template is written there and every other entry of the home
  directory is kept. Otherwise the machine is returned as it is: a configuration file
  that was there before, whatever it holds, is left byte for byte. The flag of the first
  branch is only ever set by the restore step, which runs after a backup has moved the
  installation away, and it is then set together with the file.
\<close>

theorem setup_environment_branches:
  "(env_restored s \<and> path_exists (home s) env_file \<longrightarrow> setup_environment s = Inr (True, s))
   \<and> (\<not> env_restored s \<and> \<not> path_exists (home s) env_file \<and> is_dir (home s) install_dir \<longrightarrow>
        (\<exists>s'. setup_environment s = Inr (True, s')
              \<and> read_text (home s') env_file = Inr env_content
              \<and> (\<forall>x. x \<noteq> install_name \<longrightarrow> map_of (home s') x = map_of (home s) x)))
   \<and> (\<not> env_restored s \<and> path_exists (home s) env_file \<longrightarrow> setup_environment s = Inr (True, s))
   \<and> (\<forall>ok s'. \<not> path_exists (home s) install_dir \<and> restore_env_from_backup s = Inr (ok, s')
          \<and> env_restored s' \<and> \<not> env_restored s \<longrightarrow> path_exists (home s') env_file)"
proof (intro conjI allI impI)
  show "setup_environment s = Inr (True, s)"
    if "env_restored s \<and> path_exists (home s) env_file"
    using that by (simp add: setup_environment_def env_file_def)
  show "setup_environment s = Inr (True, s)"
    if "\<not> env_restored s \<and> path_exists (home s) env_file"
    using that by (simp add: setup_environment_def env_file_def seq_def)
  show "\<exists>s'. setup_environment s = Inr (True, s')
              \<and> read_text (home s') env_file = Inr env_content
              \<and> (\<forall>x. x \<noteq> install_name \<longrightarrow> map_of (home s') x = map_of (home s) x)"
    if h: "\<not> env_restored s \<and> \<not> path_exists (home s) env_file \<and> is_dir (home s) install_dir"
  proof -
    obtain sub where
      "create_basic_env s =
         Inr (s\<lparr>home := AList.update install_name
                           (Dir (AList.update ''.env'' (File True env_content) sub)) (home s),
                 tty := tty s @ [Status Success ''Created .env configuration file'']\<rparr>)"
      using create_basic_env_fresh [of s] h by blast
    then show ?thesis
      using h
      by (simp add: setup_environment_def env_file_def [symmetric] seq_def read_text_def
          env_file_path lookup_two update_conv' del: lookup.simps)
  qed
  show "path_exists (home s') env_file"
    if "\<not> path_exists (home s) install_dir \<and> restore_env_from_backup s = Inr (ok, s')
          \<and> env_restored s' \<and> \<not> env_restored s" for ok s'
    using restore_env_from_backup_restored [of s ok s'] that path_exists_restored_home
    by (auto simp: install_dir_def path_exists_single)
qed

theorem setup_environment_branches_witness:
  "setup_environment (host\<lparr>env_restored := True, home := installed (File True filled_text)\<rparr>)
     = Inr (True, host\<lparr>env_restored := True, home := installed (File True filled_text)\<rparr>)
   \<and> (\<exists>s'. setup_environment (host\<lparr>home := [(''StitchKit'', Dir [])]\<rparr>) = Inr (True, s')
          \<and> read_text (home s') env_file = Inr env_content)
   \<and> setup_environment (host\<lparr>home := installed (File True ''MY_OWN_SETTING=1'')\<rparr>)
       = Inr (True, host\<lparr>home := installed (File True ''MY_OWN_SETTING=1'')\<rparr>)
   \<and> (\<exists>s'. restore_env_from_backup (host\<lparr>home := only_backup, stdin := [Line ''y'']\<rparr>)
            = Inr (True, s')
          \<and> env_restored s' \<and> path_exists (home s') env_file)"
proof -
  let ?A = "host\<lparr>env_restored := True, home := installed (File True filled_text)\<rparr>"
  let ?B = "host\<lparr>home := [(''StitchKit'', Dir [])]\<rparr>"
  let ?C = "host\<lparr>home := installed (File True ''MY_OWN_SETTING=1'')\<rparr>"
  let ?D = "host\<lparr>home := only_backup, stdin := [Line ''y'']\<rparr>"
  have ex: "path_exists (installed n) env_file" for n
    by (simp add: path_exists_env_file installed_def install_name_def)
  have a: "setup_environment ?A = Inr (True, ?A)"
    using setup_environment_branches [of ?A] ex by (simp add: host_def)
  have "\<not> env_restored ?B \<and> \<not> path_exists (home ?B) env_file \<and> is_dir (home ?B) install_dir"
    by (simp add: host_def path_exists_env_file install_name_def is_dir_def install_dir_def)
  then have b: "\<exists>s'. setup_environment ?B = Inr (True, s')
                  \<and> read_text (home s') env_file = Inr env_content"
    using setup_environment_branches [of ?B] by blast
  have c: "setup_environment ?C = Inr (True, ?C)"
    using setup_environment_branches [of ?C] ex by (simp add: host_def)
  have abs: "map_of (home ?D) install_name = None"
    by (simp add: only_backup_def install_name_def)
  have "read_text (home ?D) [''StitchKit.backup-20230101-000000'', ''.env''] = Inr filled_text"
    by (simp add: only_backup_def read_text_def)
  then obtain s' where s': "restore_env_from_backup ?D = Inr (True, s')" "env_restored s'"
    using restore_env_from_backup_accepted
            [of ?D "''StitchKit.backup-20230101-000000''" filled_text "''y''" "[]"]
          abs latest_only_backup
    by (simp add: lower_is_y)
  have "\<not> env_restored ?D \<and> \<not> path_exists (home ?D) install_dir"
    using abs by (simp add: host_def install_dir_def path_exists_single)
  then have "path_exists (home s') env_file"
    using setup_environment_branches [of ?D] s' by blast
  then show ?thesis using a b c s' by blast
qed

text \<open>
  C9. A response is an acceptance exactly when its lower-cased text is \<open>y\<close>, that is
  for \<open>y\<close> and \<open>Y\<close>; \<open>yes\<close> is not one. At the backup question a decline returns
  with nothing done but the announcement and the question (the home directory is the
  same), and an acceptance runs the backup step. At the restore question a decline
  returns \<open>False\<close> with nothing copied and no flag set, and an acceptance, when the step
  returns, has restored the file and set the flag. At the offer to configure now a decline
  goes straight to the manual steps, and an acceptance enters the guided edit.
\<close>

theorem prompts_accept_only_y:
  "(lower r = ''y'' \<longleftrightarrow> r = ''y'' \<or> r = ''Y'')
   \<and> lower ''yes'' \<noteq> ''y''
   \<and> (path_exists (home s) install_dir \<and> stdin s = Line r # rest \<longrightarrow>
        (lower r \<noteq> ''y'' \<longrightarrow>
           check_existing_installation s = Inr (True, after_backup_question s rest))
        \<and> (lower r = ''y'' \<longrightarrow>
             (\<forall>ok s'. check_existing_installation s = Inr (ok, s') \<longrightarrow>
                Status Info (''Creating backup at '' @ backup_name s) \<in> set (tty s'))))
   \<and> (\<forall>b. latest_backup (home s) = Some b \<and> path_exists (home s) [b, ''.env'']
          \<and> stdin s = Line r # rest \<longrightarrow>
        (lower r \<noteq> ''y'' \<longrightarrow>
           restore_env_from_backup s =
             Inr (False,
                  s\<lparr>tty := tty s @ [Status Warning (''Found backup configuration in '' @ b),
                                     Asked RestoreQ],
                    stdin := rest\<rparr>))
        \<and> (lower r = ''y'' \<longrightarrow>
             (\<forall>ok s'. restore_env_from_backup s = Inr (ok, s') \<longrightarrow>
                ok \<and> env_restored s'
                \<and> Status Success ''Configuration restored from backup'' \<in> set (tty s'))))
   \<and> (stdin s = Line r # rest \<longrightarrow>
        (lower r \<noteq> ''y'' \<longrightarrow>
           offer_configuration s =
             Inr (True,
                  s\<lparr>tty := tty s @ [Status Warning ''API credentials need to be configured'',
                                     Asked ConfigureQ, ManualSteps],
                    stdin := rest\<rparr>))
        \<and> (lower r = ''y'' \<longrightarrow>
             (\<forall>ok s'. offer_configuration s = Inr (ok, s') \<longrightarrow>
                Header ''Configure Canvas API Credentials'' \<in> set (tty s'))))"
proof -
  have 0: "lower ''yes'' \<noteq> ''y''" by (simp add: lower_is_y)
  have 1: "lower r = ''y'' \<longleftrightarrow> r = ''y'' \<or> r = ''Y''" by (rule lower_is_y)
  have 2: "check_existing_installation s = Inr (True, after_backup_question s rest)"
    if "path_exists (home s) install_dir \<and> stdin s = Line r # rest" "lower r \<noteq> ''y''"
    using that by (simp add: check_existing_installation_answered)
  have 3: "Status Info (''Creating backup at '' @ backup_name s) \<in> set (tty s')"
    if "path_exists (home s) install_dir \<and> stdin s = Line r # rest" "lower r = ''y''"
      "check_existing_installation s = Inr (ok, s')" for ok s'
    using that check_existing_installation_yes [of s r rest ok s'] by blast
  have 4: "restore_env_from_backup s =
             Inr (False,
                  s\<lparr>tty := tty s @ [Status Warning (''Found backup configuration in '' @ b),
                                     Asked RestoreQ],
                    stdin := rest\<rparr>)"
    if "latest_backup (home s) = Some b \<and> path_exists (home s) [b, ''.env'']
          \<and> stdin s = Line r # rest" "lower r \<noteq> ''y''" for b
    using that restore_env_from_backup_declined [of s b r rest] by blast
  have 5: "ok \<and> env_restored s'
           \<and> Status Success ''Configuration restored from backup'' \<in> set (tty s')"
    if "latest_backup (home s) = Some b \<and> path_exists (home s) [b, ''.env'']
          \<and> stdin s = Line r # rest" "lower r = ''y''"
      "restore_env_from_backup s = Inr (ok, s')" for b ok s'
    using that restore_env_from_backup_yes [of s b r rest ok s'] by blast
  have 6: "offer_configuration s =
             Inr (True,
                  s\<lparr>tty := tty s @ [Status Warning ''API credentials need to be configured'',
                                     Asked ConfigureQ, ManualSteps],
                    stdin := rest\<rparr>)"
    if "stdin s = Line r # rest" "lower r \<noteq> ''y''"
    using that by (rule offer_configuration_no)
  have 7: "Header ''Configure Canvas API Credentials'' \<in> set (tty s')"
    if "stdin s = Line r # rest" "lower r = ''y''" "offer_configuration s = Inr (ok, s')"
    for ok s'
    using that by (rule offer_configuration_yes)
  show ?thesis
    apply (intro conjI impI allI)
    subgoal by (rule 1)
    subgoal by (rule 0)
    subgoal by (rule 2)
    subgoal by (rule 3)
    subgoal by (rule 4)
    subgoal using 5 by blast
    subgoal using 5 by blast
    subgoal using 5 by blast
    subgoal by (rule 6)
    subgoal by (rule 7)
    done
qed

theorem prompts_accept_only_y_witness:
  "check_existing_installation
      (host\<lparr>home := installed (File True filled_text), stdin := [Line ''yes'']\<rparr>)
     = Inr (True,
            after_backup_question
              (host\<lparr>home := installed (File True filled_text), stdin := [Line ''yes'']\<rparr>) [])
   \<and> (\<exists>s'. check_existing_installation
              (host\<lparr>home := installed (File True filled_text), stdin := [Line ''Y'', Line ''no'']\<rparr>)
            = Inr (True, s')
          \<and> Status Info ''Creating backup at StitchKit.backup-20240101-120000'' \<in> set (tty s'))
   \<and> restore_env_from_backup (host\<lparr>home := only_backup, stdin := [Line ''yes'']\<rparr>)
       = Inr (False,
              host\<lparr>home := only_backup, stdin := [],
                   tty := [Status Warning ''Found backup configuration in StitchKit.backup-20230101-000000'',
                           Asked RestoreQ]\<rparr>)
   \<and> (\<exists>s'. restore_env_from_backup (host\<lparr>home := only_backup, stdin := [Line ''y'']\<rparr>)
            = Inr (True, s')
          \<and> env_restored s')
   \<and> offer_configuration (host\<lparr>stdin := [Line ''yes'']\<rparr>)
       = Inr (True,
              host\<lparr>stdin := [],
                   tty := [Status Warning ''API credentials need to be configured'',
                           Asked ConfigureQ, ManualSteps]\<rparr>)
   \<and> (\<exists>s'. offer_configuration (host\<lparr>stdin := [Line ''y'', Line []]\<rparr>) = Inr (True, s')
          \<and> Header ''Configure Canvas API Credentials'' \<in> set (tty s'))"
proof -
  let ?I = "installed (File True filled_text)"
  let ?B = "''StitchKit.backup-20230101-000000''"
  have no: "lower ''yes'' \<noteq> ''y''" "lower ''Y'' = ''y''" "lower ''y'' = ''y''"
    by (simp_all add: lower_is_y)
  have inst: "path_exists ?I install_dir"
    by (simp add: installed_def install_dir_def install_name_def path_exists_single)
  have bk: "path_exists only_backup [?B, ''.env'']"
    by (simp add: only_backup_def path_exists_def)
  have a: "check_existing_installation (host\<lparr>home := ?I, stdin := [Line ''yes'']\<rparr>)
             = Inr (True, after_backup_question (host\<lparr>home := ?I, stdin := [Line ''yes'']\<rparr>) [])"
    using prompts_accept_only_y [of "''yes''" "host\<lparr>home := ?I, stdin := [Line ''yes'']\<rparr>" "[]"] no inst
    by simp
  obtain s1 where s1: "check_existing_installation
                         (host\<lparr>home := ?I, stdin := [Line ''Y'', Line ''no'']\<rparr>) = Inr (True, s1)"
    using demo_backup_accepted by blast
  have "Status Info (''Creating backup at '' @ backup_name (host\<lparr>home := ?I, stdin := [Line ''Y'', Line ''no'']\<rparr>))
          \<in> set (tty s1)"
  proof -
    have "path_exists (home (host\<lparr>home := ?I, stdin := [Line ''Y'', Line ''no'']\<rparr>)) install_dir
          \<and> stdin (host\<lparr>home := ?I, stdin := [Line ''Y'', Line ''no'']\<rparr>) = Line ''Y'' # [Line ''no'']"
      using inst by simp
    then show ?thesis
      using prompts_accept_only_y [of "''Y''" "host\<lparr>home := ?I, stdin := [Line ''Y'', Line ''no'']\<rparr>" "[Line ''no'']"]
        no s1 by blast
  qed
  then have b: "Status Info ''Creating backup at StitchKit.backup-20240101-120000'' \<in> set (tty s1)"
    by (simp add: backup_name_def host_def)
  have "restore_env_from_backup (host\<lparr>home := only_backup, stdin := [Line ''yes'']\<rparr>)
       = Inr (False,
              (host\<lparr>home := only_backup, stdin := [Line ''yes'']\<rparr>)
                \<lparr>tty := tty (host\<lparr>home := only_backup, stdin := [Line ''yes'']\<rparr>)
                          @ [Status Warning (''Found backup configuration in '' @ ?B), Asked RestoreQ],
                 stdin := []\<rparr>)"
    using prompts_accept_only_y [of "''yes''" "host\<lparr>home := only_backup, stdin := [Line ''yes'']\<rparr>" "[]"]
      no bk latest_only_backup by simp
  then have c: "restore_env_from_backup (host\<lparr>home := only_backup, stdin := [Line ''yes'']\<rparr>)
       = Inr (False,
              host\<lparr>home := only_backup, stdin := [],
                   tty := [Status Warning ''Found backup configuration in StitchKit.backup-20230101-000000'',
                           Asked RestoreQ]\<rparr>)"
    by (simp add: host_def)
  obtain s2 where s2: "restore_env_from_backup (host\<lparr>home := only_backup, stdin := [Line ''y'']\<rparr>)
                         = Inr (True, s2)"
    using restore_env_from_backup_accepted
            [of "host\<lparr>home := only_backup, stdin := [Line ''y'']\<rparr>" ?B filled_text "''y''" "[]"]
          latest_only_backup no
    by (simp add: only_backup_def install_name_def read_text_def)
  have d: "env_restored s2"
  proof -
    have "latest_backup (home (host\<lparr>home := only_backup, stdin := [Line ''y'']\<rparr>)) = Some ?B
          \<and> path_exists (home (host\<lparr>home := only_backup, stdin := [Line ''y'']\<rparr>)) [?B, ''.env'']
          \<and> stdin (host\<lparr>home := only_backup, stdin := [Line ''y'']\<rparr>) = Line ''y'' # []"
      using bk latest_only_backup by simp
    then show ?thesis
      using prompts_accept_only_y [of "''y''" "host\<lparr>home := only_backup, stdin := [Line ''y'']\<rparr>" "[]"]
        no s2 by blast
  qed
  have "offer_configuration (host\<lparr>stdin := [Line ''yes'']\<rparr>)
       = Inr (True,
              (host\<lparr>stdin := [Line ''yes'']\<rparr>)
                \<lparr>tty := tty (host\<lparr>stdin := [Line ''yes'']\<rparr>)
                          @ [Status Warning ''API credentials need to be configured'',
                             Asked ConfigureQ, ManualSteps],
                 stdin := []\<rparr>)"
    using prompts_accept_only_y [of "''yes''" "host\<lparr>stdin := [Line ''yes'']\<rparr>" "[]"] no by simp
  then have e: "offer_configuration (host\<lparr>stdin := [Line ''yes'']\<rparr>)
       = Inr (True,
              host\<lparr>stdin := [],
                   tty := [Status Warning ''API credentials need to be configured'',
                           Asked ConfigureQ, ManualSteps]\<rparr>)"
    by (simp add: host_def)
  obtain s3 where s3: "offer_configuration (host\<lparr>stdin := [Line ''y'', Line []]\<rparr>) = Inr (True, s3)"
    using demo_configure_accepted by blast
  have f: "Header ''Configure Canvas API Credentials'' \<in> set (tty s3)"
  proof -
    have "stdin (host\<lparr>stdin := [Line ''y'', Line []]\<rparr>) = Line ''y'' # [Line []]"
      by simp
    then show ?thesis
      using prompts_accept_only_y [of "''y''" "host\<lparr>stdin := [Line ''y'', Line []]\<rparr>" "[Line []]"] no s3
      by blast
  qed
  show ?thesis
    using a b c d e f s1 s2 s3 by blast
qed

text \<open>
  C8. The exit code of \<open>main\<close> is 1 when the interpreter is older than 3.7 or \<open>run\<close>
  raises, and 0 otherwise. It is 0 exactly when \<open>run\<close> returns \<open>True\<close>, which it
  does only at a terminal success: the last thing on the terminal is the launch of the
  target application or the manual next steps. It is 1 exactly in three cases: the
  version is below the floor, an exception of class \<open>Exception\<close> leaves \<open>run\<close>, or
  \<open>KeyboardInterrupt\<close> does.
\<close>

theorem main_exit_code:
  "main s = (if version_below (version_info s) (3, 7) \<or> isl (run (new_installer s)) then 1 else 0)
   \<and> (main s = 0 \<longleftrightarrow>
        (\<exists>s'. run (new_installer s) = Inr (True, s')
              \<and> (last (tty s') = Launched \<or> last (tty s') = ManualSteps)))
   \<and> (main s = 1 \<longleftrightarrow>
        version_below (version_info s) (3, 7)
        \<or> (\<exists>e. is_Exception e \<and> run (new_installer s) = Inl e)
        \<or> run (new_installer s) = Inl KeyboardInterrupt)"
proof (cases "run (new_installer s)")
  case (Inl e)
  have "is_Exception e \<or> e = KeyboardInterrupt" by (cases e) simp_all
  moreover have "main s = 1" using Inl by (simp add: main_def)
  ultimately show ?thesis using Inl by auto
next
  case (Inr p)
  obtain ok s' where p: "p = (ok, s')" by (cases p)
  have r: "run (new_installer s) = Inr (ok, s')" using Inr p by simp
  have m: "main s = (if ok then 0 else 1)" using r by (simp add: main_def)
  show ?thesis
    using run_Inr [OF r] r m by auto
qed

theorem main_exit_code_witness:
  "main (host\<lparr>home := installed (File True filled_text), stdin := [Line ''n'']\<rparr>) = 0
   \<and> main (host\<lparr>home := installed (File True ''MY_OWN_SETTING=1''),
                 stdin := [Line ''n'', Line ''n'']\<rparr>) = 0
   \<and> main (host\<lparr>version_info := (3, 6)\<rparr>) = 1
   \<and> main (host\<lparr>home := installed (File True filled_text), stdin := [CtrlC]\<rparr>) = 1
   \<and> main (host\<lparr>home := [(''StitchKit'', File True [])], stdin := [Line ''n'']\<rparr>) = 1"
proof -
  have a: "main (host\<lparr>home := installed (File True filled_text), stdin := [Line ''n'']\<rparr>) = 0"
    using main_exit_code [of "host\<lparr>home := installed (File True filled_text), stdin := [Line ''n'']\<rparr>"]
      run_launched by blast
  have b: "main (host\<lparr>home := installed (File True ''MY_OWN_SETTING=1''),
                     stdin := [Line ''n'', Line ''n'']\<rparr>) = 0"
    using main_exit_code [of "host\<lparr>home := installed (File True ''MY_OWN_SETTING=1''),
                       stdin := [Line ''n'', Line ''n'']\<rparr>"]
      run_manual by blast
  have "version_below (version_info (host\<lparr>version_info := (3, 6)\<rparr>)) (3, 7)"
    by (simp add: version_below_def)
  then have c: "main (host\<lparr>version_info := (3, 6)\<rparr>) = 1"
    using main_exit_code [of "host\<lparr>version_info := (3, 6)\<rparr>"] by blast
  have d: "main (host\<lparr>home := installed (File True filled_text), stdin := [CtrlC]\<rparr>) = 1"
    using main_exit_code [of "host\<lparr>home := installed (File True filled_text), stdin := [CtrlC]\<rparr>"]
      run_interrupted by blast
  have "is_Exception NotADirectoryError" by simp
  then have e: "main (host\<lparr>home := [(''StitchKit'', File True [])], stdin := [Line ''n'']\<rparr>) = 1"
    using main_exit_code [of "host\<lparr>home := [(''StitchKit'', File True [])], stdin := [Line ''n'']\<rparr>"]
      run_unhandled by blast
  show ?thesis using a b c d e by blast
qed

theorem run_twice_declining_backup_counterexample:
  "check_env_credentials (host\<lparr>home := installed (File True filled_text), stdin := [Line ''n'']\<rparr>)
     = Inr True
   \<and> (\<exists>s1. run (new_installer (host\<lparr>home := installed (File True filled_text),
                                        stdin := [Line ''n'']\<rparr>))
            = Inr (True, s1)
          \<and> Asked BackupQ \<in> set (tty s1))
   \<and> (\<exists>s1. run (new_installer (host\<lparr>home := installed (File True filled_text),
                                        stdin := [Line ''y'', Line ''n'', Line ''n'']\<rparr>))
            = Inr (True, s1)
          \<and> Asked BackupQ \<in> set (tty s1) \<and> last (tty s1) = ManualSteps
          \<and> read_text (home s1) env_file = Inr env_content)
   \<and> env_content \<noteq> filled_text"
proof -
  have "check_env_credentials (host\<lparr>home := installed (File True filled_text), stdin := [Line ''n'']\<rparr>)
          = Inr True"
    by (rule check_filled) (simp add: installed_def)
  then show ?thesis
    using run_backup_declined run_backup_accepted env_content_not_filled by blast
qed

text \<open>
  C2, as amended. On an installation whose configuration file passes the credential
  check, \<open>run\<close> asks the backup question every time: on the machine of the preceding
  theorem it asks, and an acceptance followed by a declined restore ends in the manual
  steps with the template in place of the file. When the user declines the question in
  two successive runs, the interpreter is at least 3.7, no \<open>pip\<close> run is interrupted
  and the target application starts, each run returns \<open>True\<close> with the launch as the
  last thing on the terminal, and the configuration file reads as before after each run.
\<close>

theorem run_twice_declining_backup:
  assumes "read_text (home s) env_file = Inr c" "isComplete c"
    and "\<not> version_below (version_info s) (3, 7)"
    and "stdin s = Line r1 # Line r2 # rest" "lower r1 \<noteq> ''y''" "lower r2 \<noteq> ''y''"
    and "pip_upgrade s \<noteq> Inl KeyboardInterrupt" "pip_install s \<noteq> Inl KeyboardInterrupt"
    and "target_app s = Inr code"
  shows "\<exists>s1 s2. run (new_installer s) = Inr (True, s1)
           \<and> Asked BackupQ \<in> set (tty s1) \<and> last (tty s1) = Launched
           \<and> read_text (home s1) env_file = Inr c \<and> stdin s1 = Line r2 # rest
           \<and> run (new_installer s1) = Inr (True, s2)
           \<and> last (tty s2) = Launched
           \<and> read_text (home s2) env_file = Inr c \<and> stdin s2 = rest"
proof -
  obtain s1 where 1: "run (new_installer s) = Inr (True, s1)"
    "Asked BackupQ \<in> set (tty s1)" "last (tty s1) = Launched"
    "read_text (home s1) env_file = Inr c" "stdin s1 = Line r2 # rest"
    "version_info s1 = version_info s" "pip_upgrade s1 = pip_upgrade s"
    "pip_install s1 = pip_install s" "target_app s1 = target_app s"
    using run_declined_launches [OF assms(1,2,3,4,5,7,8,9)] by blast
  have "\<exists>s2. run (new_installer s1) = Inr (True, s2)
            \<and> Asked BackupQ \<in> set (tty s2) \<and> last (tty s2) = Launched
            \<and> read_text (home s2) env_file = Inr c \<and> stdin s2 = rest
            \<and> version_info s2 = version_info s1
            \<and> pip_upgrade s2 = pip_upgrade s1 \<and> pip_install s2 = pip_install s1
            \<and> target_app s2 = target_app s1"
    using assms 1 by (intro run_declined_launches [of s1 c r2 rest code]) simp_all
  then show ?thesis using 1 by blast
qed

theorem run_twice_declining_backup_witness:
  "\<exists>s1 s2. run (new_installer (host\<lparr>home := installed (File True filled_text),
                                      stdin := [Line ''n'', Line ''no'']\<rparr>))
            = Inr (True, s1)
     \<and> Asked BackupQ \<in> set (tty s1) \<and> last (tty s1) = Launched
     \<and> read_text (home s1) env_file = Inr filled_text
     \<and> run (new_installer s1) = Inr (True, s2)
     \<and> last (tty s2) = Launched
     \<and> read_text (home s2) env_file = Inr filled_text"
proof -
  let ?M = "host\<lparr>home := installed (File True filled_text), stdin := [Line ''n'', Line ''no'']\<rparr>"
  have a: "read_text (home ?M) env_file = Inr filled_text"
    by (simp add: read_installed)
  have b: "isComplete filled_text"
    unfolding isComplete_def required_fields_def filled_text_def by code_simp
  have c: "\<not> version_below (version_info ?M) (3, 7)"
    by (simp add: host_def version_below_def)
  have d: "stdin ?M = Line ''n'' # Line ''no'' # []" "lower ''n'' \<noteq> ''y''" "lower ''no'' \<noteq> ''y''"
    by (simp_all add: lower_is_y)
  have e: "pip_upgrade ?M \<noteq> Inl KeyboardInterrupt" "pip_install ?M \<noteq> Inl KeyboardInterrupt"
    "target_app ?M = Inr 0"
    by (simp_all add: host_def)
  show ?thesis
    using run_twice_declining_backup [OF a b c d e] by blast
qed

theorem restore_selects_latest_entry_counterexample:
  "backup_existing shadowed
     = Inr (Some ''StitchKit.backup-20240101-120000'', shadowed_after_backup)
   \<and> greatest_backup_directory (home shadowed_after_backup)
       = Some ''StitchKit.backup-20240101-120000''
   \<and> read_text (home shadowed_after_backup) [''StitchKit.backup-20240101-120000'', ''.env'']
       = Inr filled_text
   \<and> latest_backup (home shadowed_after_backup) = Some ''StitchKit.backup-9.tar.gz''
   \<and> latest_backup (home shadowed_after_backup)
       \<noteq> greatest_backup_directory (home shadowed_after_backup)
   \<and> restore_env_from_backup shadowed_after_backup = Inr (False, shadowed_after_backup)"
  using shadowed_backup shadowed_greatest_directory shadowed_read shadowed_latest
    restore_env_from_backup_no_env [OF shadowed_latest shadowed_no_env]
  by simp

text \<open>
  C3, as amended. Once \<open>backup_existing\<close> has created a backup in this run, the
  restore step works from the home directory alone. The new backup is one of the entries
  whose names match \<open>StitchKit.backup-*\<close>, and the search selects the greatest of all the
  matching names, of entries of whatever kind; the new one does not exceed it and need not
  be it. A restore is offered only when the selected entry holds a configuration file:
  when it holds none, as a regular file does, the step returns \<open>False\<close> and leaves the
  machine as it was, whatever the other backups hold (on the machine of the preceding
  theorem the greatest matching directory has a readable configuration and nothing is
  offered). When it holds one, the offer names the selected entry; a decline copies
  nothing, an acceptance gives the installation the text of that file, and a file that
  cannot be read makes the step raise.
\<close>

theorem restore_selects_latest_entry:
  assumes created: "backup_existing s = Inr (Some b, s1)"
  shows "b \<in> set (glob (home s1) backup_pattern)
    \<and> (\<exists>latest. latest_backup (home s1) = Some latest \<and> b \<le> latest
          \<and> (\<forall>name \<in> fst ` set (home s1). prefix ''StitchKit.backup-'' name \<longrightarrow> name \<le> latest))
    \<and> (\<forall>latest.
          latest_backup (home s1) = Some latest \<and> \<not> path_exists (home s1) [latest, ''.env''] \<longrightarrow>
          restore_env_from_backup s1 = Inr (False, s1))
    \<and> (\<forall>latest r rest.
          latest_backup (home s1) = Some latest \<and> path_exists (home s1) [latest, ''.env'']
          \<and> stdin s1 = Line r # rest \<and> lower r \<noteq> ''y'' \<longrightarrow>
          restore_env_from_backup s1 =
            Inr (False,
                 s1\<lparr>tty := tty s1 @ [Status Warning (''Found backup configuration in '' @ latest),
                                      Asked RestoreQ],
                    stdin := rest\<rparr>))
    \<and> (\<forall>latest c r rest.
          latest_backup (home s1) = Some latest \<and> read_text (home s1) [latest, ''.env''] = Inr c
          \<and> stdin s1 = Line r # rest \<and> lower r = ''y'' \<longrightarrow>
          (\<exists>s2. restore_env_from_backup s1 = Inr (True, s2)
                \<and> read_text (home s2) env_file = Inr c
                \<and> Status Warning (''Found backup configuration in '' @ latest) \<in> set (tty s2)))
    \<and> (\<forall>latest e r rest.
          latest_backup (home s1) = Some latest \<and> path_exists (home s1) [latest, ''.env'']
          \<and> read_text (home s1) [latest, ''.env''] = Inl e
          \<and> stdin s1 = Line r # rest \<and> lower r = ''y'' \<longrightarrow>
          restore_env_from_backup s1 = Inl e)
    \<and> (\<exists>s' b' s1' latest'. backup_existing s' = Inr (Some b', s1')
          \<and> latest_backup (home s1') = Some latest' \<and> latest' \<noteq> b')"
proof -
  let ?M = "set (glob (home s1) backup_pattern)"
  have b: "b = backup_name s"
    and absent: "map_of (home s1) install_name = None"
    and there: "map_of (home s1) b \<noteq> None"
    using backup_existing_created [OF created] by blast+
  have "prefix ''StitchKit.backup-'' b"
    by (simp add: b backup_name_def)
  then have 1: "b \<in> ?M"
    using map_of_in_fst [OF there] by (simp add: set_glob_backups)
  then have ne: "?M \<noteq> {}" by auto
  have latest: "latest_backup (home s1) = Some (Max ?M)"
    using ne by (simp add: latest_backup_Max)
  have "b \<le> Max ?M" using 1 by simp
  moreover have "\<forall>name \<in> ?M. name \<le> Max ?M" by simp
  ultimately have 2: "\<exists>latest. latest_backup (home s1) = Some latest \<and> b \<le> latest
          \<and> (\<forall>name \<in> fst ` set (home s1). prefix ''StitchKit.backup-'' name \<longrightarrow> name \<le> latest)"
    using latest unfolding set_glob_backups by blast
  have 3: "restore_env_from_backup s1 = Inr (False, s1)"
    if "latest_backup (home s1) = Some l \<and> \<not> path_exists (home s1) [l, ''.env'']" for l
    using that restore_env_from_backup_no_env [of s1 l] by blast
  have 4: "restore_env_from_backup s1 =
            Inr (False,
                 s1\<lparr>tty := tty s1 @ [Status Warning (''Found backup configuration in '' @ l),
                                      Asked RestoreQ],
                    stdin := rest\<rparr>)"
    if "latest_backup (home s1) = Some l \<and> path_exists (home s1) [l, ''.env'']
          \<and> stdin s1 = Line r # rest \<and> lower r \<noteq> ''y''" for l r rest
    using that restore_env_from_backup_declined [of s1 l r rest] by blast
  have 5: "\<exists>s2. restore_env_from_backup s1 = Inr (True, s2)
                \<and> read_text (home s2) env_file = Inr c
                \<and> Status Warning (''Found backup configuration in '' @ l) \<in> set (tty s2)"
    if "latest_backup (home s1) = Some l \<and> read_text (home s1) [l, ''.env''] = Inr c
          \<and> stdin s1 = Line r # rest \<and> lower r = ''y''" for l c r rest
    using restore_env_from_backup_accepted [OF absent, of l c r rest] that
    by (simp add: read_restored_home)
  have 6: "restore_env_from_backup s1 = Inl e"
    if "latest_backup (home s1) = Some l \<and> path_exists (home s1) [l, ''.env'']
          \<and> read_text (home s1) [l, ''.env''] = Inl e
          \<and> stdin s1 = Line r # rest \<and> lower r = ''y''" for l e r rest
    using that restore_env_from_backup_unreadable [OF absent, of l r rest e] by blast
  define s' where "s' = host\<lparr>home := stale_home, stdin := []\<rparr>"
  define s1' where
    "s1' = s'\<lparr>tty := tty s' @ [Status Info (''Creating backup at '' @ backup_name s'),
                                 Status Success ''Backup created successfully''],
               home := stale_home_after_backup\<rparr>"
  have A: "backup_existing s' = Inr (Some (backup_name s'), s1')"
    using stale_move [of "[]"] by (simp add: backup_existing_cases s'_def s1'_def)
  have C: "latest_backup (home s1') = Some ''StitchKit.backup-20991231-235959''"
    by (simp add: s1'_def stale_latest)
  have D: "''StitchKit.backup-20991231-235959'' \<noteq> backup_name s'"
    by (simp add: backup_name_def host_def s'_def)
  have 7: "\<exists>s' b' s1' latest'. backup_existing s' = Inr (Some b', s1')
          \<and> latest_backup (home s1') = Some latest' \<and> latest' \<noteq> b'"
    using A C D by blast
  show ?thesis
    apply (intro conjI allI impI)
    subgoal by (rule 1)
    subgoal by (rule 2)
    subgoal by (rule 3)
    subgoal by (rule 4)
    subgoal by (rule 5)
    subgoal by (rule 6)
    subgoal by (rule 7)
    done
qed

theorem restore_selects_latest_entry_witness:
  "(\<exists>s1 s2. backup_existing (host\<lparr>home := stale_home, stdin := [Line ''y'']\<rparr>)
              = Inr (Some ''StitchKit.backup-20240101-120000'', s1)
     \<and> latest_backup (home s1) = Some ''StitchKit.backup-20991231-235959''
     \<and> restore_env_from_backup s1 = Inr (True, s2)
     \<and> read_text (home s2) env_file = Inr commented_placeholder_text)
   \<and> latest_backup (home shadowed_after_backup) = Some ''StitchKit.backup-9.tar.gz''
   \<and> restore_env_from_backup shadowed_after_backup = Inr (False, shadowed_after_backup)"
proof -
  define s where "s = host\<lparr>home := stale_home, stdin := [Line ''y'']\<rparr>"
  define s1 where
    "s1 = s\<lparr>tty := tty s @ [Status Info (''Creating backup at '' @ backup_name s),
                               Status Success ''Backup created successfully''],
              home := stale_home_after_backup\<rparr>"
  have name: "backup_name s = ''StitchKit.backup-20240101-120000''"
    by (simp add: backup_name_def host_def s_def)
  have A: "backup_existing s = Inr (Some (backup_name s), s1)"
    using stale_move [of "[Line ''y'']"] by (simp add: backup_existing_cases s_def s1_def)
  have L: "latest_backup (home s1) = Some ''StitchKit.backup-20991231-235959''"
    by (simp add: s1_def stale_latest)
  have R: "read_text (home s1) [''StitchKit.backup-20991231-235959'', ''.env'']
             = Inr commented_placeholder_text"
    by (simp add: s1_def stale_home_after_backup_def read_text_def)
  have I: "stdin s1 = Line ''y'' # [] \<and> lower ''y'' = ''y''"
    by (simp add: s1_def s_def lower_is_y)
  obtain s2 where "restore_env_from_backup s1 = Inr (True, s2)"
    "read_text (home s2) env_file = Inr commented_placeholder_text"
    using restore_selects_latest_entry [OF A] L R I by blast
  moreover have "backup_existing s = Inr (Some ''StitchKit.backup-20240101-120000'', s1)"
    using A name by simp
  ultimately have stale:
    "\<exists>s1 s2. backup_existing (host\<lparr>home := stale_home, stdin := [Line ''y'']\<rparr>)
              = Inr (Some ''StitchKit.backup-20240101-120000'', s1)
     \<and> latest_backup (home s1) = Some ''StitchKit.backup-20991231-235959''
     \<and> restore_env_from_backup s1 = Inr (True, s2)
     \<and> read_text (home s2) env_file = Inr commented_placeholder_text"
    using L unfolding s_def by blast
  have "restore_env_from_backup shadowed_after_backup = Inr (False, shadowed_after_backup)"
    using restore_selects_latest_entry [OF shadowed_backup] shadowed_latest shadowed_no_env by blast
  then show ?thesis
    using stale shadowed_latest by blast
qed

text \<open>
  C7. \<open>check_env_credentials\<close> swallows a failing read but not a failing existence
  test. Below a directory that the process may not search, \<open>exists\<close>, which the source
  calls before its \<open>try\<close>, raises \<open>PermissionError\<close>, and the error leaves the check
  instead of the value \<open>False\<close>. Where no such directory lies above the configuration
  file, a missing file gives \<open>False\<close>, and so does every read that fails, by permission,
  on a directory in the place of the file, or by bytes that do not decode: nothing is
  raised there.
\<close>

theorem check_env_credentials_raises_below_locked_directory:
  "(denied locked (home s) env_file \<longrightarrow>
      check_env_credentials_under locked decodes s = Inl PermissionError)
   \<and> (\<not> denied locked (home s) env_file \<and> \<not> path_exists (home s) env_file \<longrightarrow>
      check_env_credentials_under locked decodes s = Inr False)
   \<and> (\<not> denied locked (home s) env_file
       \<and> isl (read_text_under locked decodes (home s) env_file) \<longrightarrow>
      check_env_credentials_under locked decodes s = Inr False)"
proof (intro conjI impI)
  show "check_env_credentials_under locked decodes s = Inl PermissionError"
    if "denied locked (home s) env_file"
    using that
    by (simp add: check_env_credentials_under_def exists_under_def env_file_def seq_def)
  show "check_env_credentials_under locked decodes s = Inr False"
    if "\<not> denied locked (home s) env_file \<and> \<not> path_exists (home s) env_file"
    using that
    by (simp add: check_env_credentials_under_def exists_under_def env_file_def seq_def)
  show "check_env_credentials_under locked decodes s = Inr False"
    if h: "\<not> denied locked (home s) env_file
           \<and> isl (read_text_under locked decodes (home s) env_file)"
  proof -
    obtain e where e: "read_text_under locked decodes (home s) env_file = Inl e"
      using h by (auto simp: isl_def)
    have "is_Exception e" using read_text_under_Exception [OF e] .
    then show ?thesis
      using h e
      by (simp add: check_env_credentials_under_def exists_under_def env_file_def [symmetric]
          seq_def try_except_def Let_def)
  qed
qed

theorem check_env_credentials_raises_below_locked_directory_witness:
  "denied [install_dir] (home (host\<lparr>home := installed (File True filled_text)\<rparr>)) env_file
   \<and> check_env_credentials_under [install_dir] (\<lambda>bytes. True)
         (host\<lparr>home := installed (File True filled_text)\<rparr>) = Inl PermissionError
   \<and> check_env_credentials (host\<lparr>home := installed (File True filled_text)\<rparr>) = Inr True
   \<and> check_env_credentials_under [] (\<lambda>bytes. True) host = Inr False
   \<and> check_env_credentials_under [] decodes_ascii
         (host\<lparr>home := installed (File False filled_text)\<rparr>) = Inr False
   \<and> check_env_credentials_under [] decodes_ascii
         (host\<lparr>home := installed (File True latin1_text)\<rparr>) = Inr False"
proof -
  let ?A = "host\<lparr>home := installed (File True filled_text)\<rparr>"
  let ?B = "host\<lparr>home := installed (File False filled_text)\<rparr>"
  let ?C = "host\<lparr>home := installed (File True latin1_text)\<rparr>"
  have d: "denied [install_dir] (home ?A) env_file"
    by (simp add: denied_def env_file_def install_dir_def install_name_def installed_def
        is_dir_def strict_prefix_def)
  have a: "check_env_credentials_under [install_dir] (\<lambda>bytes. True) ?A = Inl PermissionError"
    using check_env_credentials_raises_below_locked_directory [of "[install_dir]" ?A "\<lambda>bytes. True"] d by blast
  have a': "check_env_credentials ?A = Inr True"
    by (rule check_filled) (simp add: installed_def)
  have nd: "\<not> denied [] es env_file" for es
    by (simp add: denied_def)
  have "\<not> path_exists (home host) env_file"
    by (simp add: host_def path_exists_env_file)
  then have b: "check_env_credentials_under [] (\<lambda>bytes. True) host = Inr False"
    using check_env_credentials_raises_below_locked_directory [of "[]" host "\<lambda>bytes. True"] nd by blast
  have "isl (read_text_under [] decodes_ascii (home ?B) env_file)"
    by (simp add: read_text_under_def denied_def read_text_def env_file_path lookup_two
        installed_def install_name_def del: lookup.simps)
  then have c: "check_env_credentials_under [] decodes_ascii ?B = Inr False"
    using check_env_credentials_raises_below_locked_directory [of "[]" ?B decodes_ascii] nd by blast
  have "\<not> decodes_ascii latin1_text"
    by (simp add: decodes_ascii_def latin1_text_def)
  then have "isl (read_text_under [] decodes_ascii (home ?C) env_file)"
    by (simp add: read_text_under_def denied_def read_installed)
  then have e: "check_env_credentials_under [] decodes_ascii ?C = Inr False"
    using check_env_credentials_raises_below_locked_directory [of "[]" ?C decodes_ascii] nd by blast
  show ?thesis using d a a' b c e by blast
qed

end
